theory Spec2Isabelle
  imports Main "HOL-Library.Word"
begin

unbundle bit_operations_syntax

section \<open>Bytes, slices and hexadecimal text (Go standard library)\<close>

type_synonym byte = "8 word"

text \<open>
  The errors and panics of the Ripple adapter (\<^verbatim>\<open>tokens/ripple/buildtx.go\<close> and
  \<^verbatim>\<open>tokens/ripple/signtx.go\<close>). An error made by \<^verbatim>\<open>fmt.Errorf\<close> keeps the values
  its message prints; an error handed up from a collaborator is \<open>ErrExternal\<close> with the
  collaborator's text. The two run-time panics the code can reach are values too.
\<close>

datatype error =
    ErrToChainIDMismatch
  | ErrForbidEmptySender
  | ErrSenderMismatch
  | ErrSwapTypeNotSupported
  | ErrMissMPCPublicKey
  | ErrMissTokenConfig
  | ErrNoBridgeForChainID
  | ErrInvalidReceiver
  | ErrNonExistCurrency string
  | ErrAmountOverflow int
  | ErrNonExistIssuer string
  | ErrInsufficientNativeSender string
  | ErrInsufficientNativeReceiver string
  | ErrInsufficientIssued string string string
  | ErrCannotGetAccount error
  | ErrNotPayment
  | ErrTypeAssertion
  | ErrVerifyReceiver
  | ErrSigningHash error
  | ErrRsvCount nat string
  | ErrVerifySignature bool "error option"
  | ErrSignTypeAssertion
  | ErrSignHash error
  | ErrParseSignature error
  | ErrExternal string
  | PanicNilDereference
  | PanicSliceBounds

text \<open>
  A Go slice of bytes: the \<open>len\<close> elements it shows, and the elements of its backing
  array between \<open>len\<close> and \<open>cap\<close>. A slice expression \<^verbatim>\<open>b[lo:hi]\<close> on a slice is in range
  when \<open>lo \<le> hi \<le> cap(b)\<close> (the bound is the capacity, not the length) and panics
  otherwise.
\<close>

record go_slice =
  slice_elems :: "byte list"
  slice_spare :: "byte list"

definition slice_cap :: "go_slice \<Rightarrow> nat" where
  "slice_cap b = length (slice_elems b) + length (slice_spare b)"

definition slice_range :: "go_slice \<Rightarrow> nat \<Rightarrow> nat \<Rightarrow> error + byte list" where
  "slice_range b lo hi =
     (if lo \<le> hi \<and> hi \<le> slice_cap b
      then Inr (take (hi - lo) (drop lo (slice_elems b @ slice_spare b)))
      else Inl PanicSliceBounds)"

text \<open>\<^verbatim>\<open>encoding/hex\<close>: \<^verbatim>\<open>fromHexChar\<close>, \<^verbatim>\<open>Decode\<close>, \<^verbatim>\<open>DecodeString\<close>, \<^verbatim>\<open>EncodeToString\<close>.\<close>

datatype hex_error = InvalidByteError char | ErrLength

definition fromHexChar :: "char \<Rightarrow> byte option" where
  "fromHexChar c =
     (let n = (of_char c :: nat) in
      if 48 \<le> n \<and> n \<le> 57 then Some (of_nat (n - 48))
      else if 97 \<le> n \<and> n \<le> 102 then Some (of_nat (n - 97 + 10))
      else if 65 \<le> n \<and> n \<le> 70 then Some (of_nat (n - 65 + 10))
      else None)"

text \<open>
  \<^verbatim>\<open>Decode\<close> reads two characters a step and stops at the first character that is no
  hexadecimal digit; a single trailing character is checked before the odd length is
  reported. It returns the bytes written before the error.
\<close>

fun hex_Decode :: "string \<Rightarrow> byte list \<times> hex_error option" where
  "hex_Decode [] = ([], None)"
| "hex_Decode [c] =
     (case fromHexChar c of
        None \<Rightarrow> ([], Some (InvalidByteError c))
      | Some a \<Rightarrow> ([], Some ErrLength))"
| "hex_Decode (c # d # cs) =
     (case fromHexChar c of
        None \<Rightarrow> ([], Some (InvalidByteError c))
      | Some a \<Rightarrow>
         (case fromHexChar d of
            None \<Rightarrow> ([], Some (InvalidByteError d))
          | Some b \<Rightarrow>
             (case hex_Decode cs of (bs, e) \<Rightarrow> ((push_bit 4 a OR b) # bs, e))))"

text \<open>
  \<^verbatim>\<open>DecodeString\<close> returns the decoded prefix as a slice of the buffer it decoded into.
  How large that buffer is, and what lies in it behind the decoded prefix, is not part
  of the documented behaviour and differs between Go releases, so it is the parameter
  \<open>spare\<close>: the bytes of the buffer behind the prefix, for the string and the number of
  bytes decoded. \<open>spare_make\<close> is the release that allocates
  \<^verbatim>\<open>make([]byte, DecodedLen(len(s)))\<close>: zero bytes up to half the string's length.
  Older releases decode inside \<^verbatim>\<open>[]byte(s)\<close>, a buffer at least as long as the string.
\<close>

type_synonym decode_spare = "string \<Rightarrow> nat \<Rightarrow> byte list"

definition spare_make :: decode_spare where
  "spare_make s n = replicate (length s div 2 - n) 0"

definition hex_DecodeString :: "decode_spare \<Rightarrow> string \<Rightarrow> go_slice \<times> hex_error option" where
  "hex_DecodeString spare s =
     (case hex_Decode s of
        (bs, e) \<Rightarrow> (\<lparr>slice_elems = bs, slice_spare = spare s (length bs)\<rparr>, e))"

definition hextable :: string where
  "hextable = ''0123456789abcdef''"

definition upperhex :: string where
  "upperhex = ''0123456789ABCDEF''"

fun hex_EncodeToString :: "byte list \<Rightarrow> string" where
  "hex_EncodeToString [] = []"
| "hex_EncodeToString (v # vs) =
     hextable ! unat (drop_bit 4 v) # hextable ! unat (v AND 15) # hex_EncodeToString vs"

text \<open>\<^verbatim>\<open>fmt.Sprintf("%X", sig)\<close> on a byte slice: two upper-case digits a byte.\<close>

fun sprintf_X_bytes :: "byte list \<Rightarrow> string" where
  "sprintf_X_bytes [] = []"
| "sprintf_X_bytes (v # vs) =
     upperhex ! unat (drop_bit 4 v) # upperhex ! unat (v AND 15) # sprintf_X_bytes vs"

text \<open>
  \<^verbatim>\<open>math/big\<close>: the digits of a natural number in base 16, most significant first
  (\<^verbatim>\<open>nat.utoa\<close>), and \<^verbatim>\<open>fmt.Sprintf("%064X", x)\<close> on a \<^verbatim>\<open>*big.Int\<close>: sign, then zeros
  up to the width of 64 characters, then the upper-case digits.
\<close>

function utoa16 :: "nat \<Rightarrow> nat list" where
  "utoa16 n = (if n < 16 then [n] else utoa16 (n div 16) @ [n mod 16])"
  by pat_completeness auto
termination
  by (relation "measure id") auto

declare utoa16.simps [simp del]

definition sprintf_064X :: "int \<Rightarrow> string" where
  "sprintf_064X x =
     (let sign = (if x < 0 then ''-'' else []);
          digits = map (\<lambda>d. upperhex ! d) (utoa16 (nat \<bar>x\<bar>))
      in sign @ replicate (64 - (length sign + length digits)) CHR ''0'' @ digits)"

text \<open>
  \<^verbatim>\<open>(*big.Int).SetString(s, 16)\<close>: an optional sign, then digits of base 16 in either
  case; the whole string must be consumed and hold at least one digit. \<open>None\<close> is the
  \<^verbatim>\<open>(nil, false)\<close> result.
\<close>

definition digit16 :: "char \<Rightarrow> nat option" where
  "digit16 c =
     (let n = (of_char c :: nat) in
      if 48 \<le> n \<and> n \<le> 57 then Some (n - 48)
      else if 97 \<le> n \<and> n \<le> 102 then Some (n - 97 + 10)
      else if 65 \<le> n \<and> n \<le> 70 then Some (n - 65 + 10)
      else None)"

fun scan_digits16 :: "nat \<Rightarrow> string \<Rightarrow> nat option" where
  "scan_digits16 acc [] = Some acc"
| "scan_digits16 acc (c # cs) =
     (case digit16 c of None \<Rightarrow> None | Some d \<Rightarrow> scan_digits16 (16 * acc + d) cs)"

definition big_SetString16 :: "string \<Rightarrow> int option" where
  "big_SetString16 s =
     (case (case s of
              [] \<Rightarrow> (False, s)
            | c # cs \<Rightarrow>
                if c = CHR ''-'' then (True, cs)
                else if c = CHR ''+'' then (False, cs) else (False, s)) of
        (neg, rest) \<Rightarrow>
          if rest = [] then None
          else (case scan_digits16 0 rest of
                  None \<Rightarrow> None
                | Some n \<Rightarrow> Some (if neg then - int n else int n)))"

section \<open>Signature codec (\<^verbatim>\<open>signtx.go\<close>)\<close>

text \<open>
  Modelled from the spec: \<^verbatim>\<open>common.FromHex\<close> is code of this repository that is not
  among the source files. The spec (4.7) has the EdDSA RSV be "the raw signature hex", decoded
  to the raw bytes; the helper is hexadecimal decoding that drops an optional \<^verbatim>\<open>0x\<close>
  prefix, pads an odd number of digits with a leading zero and discards the decoding
  error, keeping the bytes decoded before it.
\<close>

definition has0xPrefix :: "string \<Rightarrow> bool" where
  "has0xPrefix s =
     (case s of
        c # d # _ \<Rightarrow> c = CHR ''0'' \<and> (d = CHR ''x'' \<or> d = CHR ''X'')
      | _ \<Rightarrow> False)"

definition FromHex :: "string \<Rightarrow> byte list" where
  "FromHex s =
     (let s1 = (if has0xPrefix s then drop 2 s else s);
          s2 = (if odd (length s1) then CHR ''0'' # s1 else s1)
      in fst (hex_Decode s2))"

text \<open>\<^verbatim>\<open>isEd25519Pubkey\<close>: 33 bytes (\<^verbatim>\<open>ed25519.PublicKeySize + 1\<close>), the first \<^verbatim>\<open>0xED\<close>.\<close>

definition isEd25519Pubkey :: "byte list \<Rightarrow> bool" where
  "isEd25519Pubkey pubkey = (length pubkey = 32 + 1 \<and> pubkey ! 0 = 0xED)"

text \<open>
  \<^verbatim>\<open>rsvToSig\<close>. \<open>Serialize\<close> is \<^verbatim>\<open>btcec\<close>'s encoder of an (R, S) pair, a parameter.
  The error of \<^verbatim>\<open>hex.DecodeString\<close> is discarded; the two slice expressions panic when
  out of range; \<^verbatim>\<open>SetString\<close> returning nil would make \<^verbatim>\<open>Serialize\<close> dereference nil.
\<close>

definition rsvToSig ::
  "decode_spare \<Rightarrow> (int \<Rightarrow> int \<Rightarrow> byte list) \<Rightarrow> string \<Rightarrow> bool \<Rightarrow> error + byte list" where
  "rsvToSig spare Serialize rsv isEd =
     (if isEd then Inr (FromHex rsv)
      else
        (case hex_DecodeString spare rsv of
           (b, _) \<Rightarrow>
             (case slice_range b 0 32 of
                Inl e \<Rightarrow> Inl e
              | Inr b1 \<Rightarrow>
                 (case slice_range b 32 64 of
                    Inl e \<Rightarrow> Inl e
                  | Inr b2 \<Rightarrow>
                     (case (big_SetString16 (hex_EncodeToString b1),
                            big_SetString16 (hex_EncodeToString b2)) of
                        (Some r, Some s) \<Rightarrow> Inr (Serialize r s)
                      | _ \<Rightarrow> Inl PanicNilDereference)))))"

text \<open>
  The RSV strings \<^verbatim>\<open>SignTransactionWithRippleKey\<close> makes (lines 155 to 163): the raw
  signature in upper-case hexadecimal for an EdDSA key, and
  \<^verbatim>\<open>fmt.Sprintf("%064X%064X00", R, S)\<close> for an ECDSA key.
\<close>

definition eddsa_rsv :: "byte list \<Rightarrow> string" where
  "eddsa_rsv sig = sprintf_X_bytes sig"

definition ecdsa_rsv :: "int \<Rightarrow> int \<Rightarrow> string" where
  "ecdsa_rsv R S = sprintf_064X R @ sprintf_064X S @ ''00''"

section \<open>Data of the adapter\<close>

text \<open>
  The types of \<^verbatim>\<open>tokens\<close> and of the ledger library \<^verbatim>\<open>rubblelabs/ripple/data\<close> that the two
  files use. Their declarations are not among the source files; the records keep the
  fields the code reads and writes. A chain identifier (\<^verbatim>\<open>*big.Int\<close>) is kept as its
  decimal text, the only form the code uses (\<^verbatim>\<open>.String()\<close>). An account is kept as its
  address text.
\<close>

type_synonym data_Currency = string
type_synonym data_Account = string
type_synonym data_PathSet = string

record data_Value =
  val_native :: bool
  val_num :: int
  val_offset :: int

record data_Amount =
  am_Value :: data_Value
  am_Currency :: data_Currency
  am_Issuer :: data_Account

record ripple_extra =
  rx_Currency :: string
  rx_Issuer :: string

record token_config =
  tc_Decimals :: "8 word"
  tc_RippleExtra :: ripple_extra

datatype swap_type = ERC20SwapType | OtherSwapType nat

record erc20_swap_info =
  si_Token :: string
  si_TokenID :: string

record all_extras =
  ax_Sequence :: "64 word option"
  ax_Fee :: "string option"

record build_tx_args =
  args_SwapID :: string
  args_SwapType :: swap_type
  args_From :: string
  args_Bind :: string
  args_OriginFrom :: string
  args_OriginTxTo :: string
  args_OriginValue :: int
  args_FromChainID :: string
  args_ToChainID :: string
  args_ERC20SwapInfo :: "erc20_swap_info option"
  args_Extra :: "all_extras option"

datatype tx_type = PAYMENT | OTHER_TX nat

record payment =
  pay_TransactionType :: tx_type
  pay_Flags :: "32 word option"
  pay_Account :: "byte list"
  pay_Sequence :: "32 word"
  pay_Fee :: "data_Value option"
  pay_SigningPubKey :: "byte list option"
  pay_TxnSignature :: "byte list option"
  pay_Hash :: "byte list"
  pay_Memos :: "(byte list \<times> byte list) list"
  pay_Destination :: data_Account
  pay_Amount :: data_Amount
  pay_Paths :: "data_PathSet option"
  pay_DestinationTag :: "32 word option"

text \<open>A value of type \<^verbatim>\<open>interface{}\<close> handed to the signer: a \<^verbatim>\<open>*data.Payment\<close> or not.\<close>

datatype raw_tx = RawPayment payment | RawOther

datatype crypto_Key = Key "byte list"

datatype sign_type = SignTypeEC256K1 | SignTypeED25519

record account_data =
  acc_Sequence :: "32 word option"

section \<open>Collaborators\<close>

text \<open>
  Everything the two files call that is not in them: the router's registry and
  parameters, the ledger's RPC client, the signing oracle (\<open>bridge_env\<close>); the ledger
  library's values, amounts and transactions (\<open>data_env\<close>); keys and signatures
  (\<open>crypto_env\<close>). A collaborator's error is a value of \<open>error\<close>; a nil pointer result is
  \<open>None\<close>.
\<close>

record bridge_env =
  IsTestMode :: bool
  ChainID :: string
  GetRouterMPC :: "string \<Rightarrow> string \<Rightarrow> error + string"
  GetMPCPublicKey :: "string \<Rightarrow> string"
  GetCachedMultichainToken :: "string \<Rightarrow> string \<Rightarrow> string"
  GetTokenConfig :: "string \<Rightarrow> token_config option"
  IsValidAddress :: "string \<Rightarrow> bool"
  GetBridgeByChainID :: "string \<Rightarrow> (string \<Rightarrow> token_config option) option"
  CalcSwapValue ::
    "string \<Rightarrow> string \<Rightarrow> int \<Rightarrow> 8 word \<Rightarrow> 8 word \<Rightarrow> string \<Rightarrow> string \<Rightarrow> int"
  GetTokenID :: "build_tx_args \<Rightarrow> string"
  GetExtraArgsJSON :: "build_tx_args \<Rightarrow> string"
  HasRouterConfig :: bool
  GetMinReserveFee :: "string \<Rightarrow> int option"
  AdjustNonce :: "string \<Rightarrow> 64 word \<Rightarrow> 64 word"
  GetAccount :: "string \<Rightarrow> error + account_data"
  GetBalance :: "string \<Rightarrow> int option \<times> error option"
  GetAccountLine :: "string \<Rightarrow> string \<Rightarrow> string \<Rightarrow> error + data_Value"
  SignWithPrivateKey :: bool
  GetSignerPrivateKey :: "string \<Rightarrow> string"
  DoSignOne :: "sign_type \<Rightarrow> string \<Rightarrow> string \<Rightarrow> string \<Rightarrow> error + string \<times> string list"
  EqualFold :: "string \<Rightarrow> string \<Rightarrow> bool"

record data_env =
  currencyMap :: "string \<rightharpoonup> data_Currency"
  issuerMap :: "string \<rightharpoonup> data_Account"
  Currency_IsNative :: "data_Currency \<Rightarrow> bool"
  RippleExtra_IsNative :: "ripple_extra \<Rightarrow> bool"
  NewAmount :: "64 word \<Rightarrow> error + data_Amount"
  NewNonNativeValue :: "64 word \<Rightarrow> 64 word \<Rightarrow> error + data_Value"
  NewNativeValue :: "64 word \<Rightarrow> error + data_Value"
  NewValue :: "string \<Rightarrow> bool \<Rightarrow> error + data_Value"
  Value_String :: "data_Value \<Rightarrow> string"
  Value_Compare :: "data_Value \<Rightarrow> data_Value \<Rightarrow> int"
  Amount_String :: "data_Amount \<Rightarrow> string"
  parseAccount :: "string \<Rightarrow> data_Account option"
  parseAmount :: "string \<Rightarrow> data_Amount option"
  parsePaths :: "string \<Rightarrow> data_PathSet option"
  SigningHash :: "payment \<Rightarrow> error + byte list \<times> byte list"
  SigningPrefix :: "payment \<Rightarrow> byte list"
  Raw :: "payment \<Rightarrow> error + byte list \<times> byte list"
  Hash_String :: "byte list \<Rightarrow> string"
  ToHex :: "byte list \<Rightarrow> string"

record crypto_env =
  ImportPublicKey :: "byte list \<Rightarrow> crypto_Key"
  Key_Id :: "crypto_Key \<Rightarrow> 32 word option \<Rightarrow> byte list"
  Key_Public :: "crypto_Key \<Rightarrow> 32 word option \<Rightarrow> byte list"
  Key_Private :: "crypto_Key \<Rightarrow> 32 word option \<Rightarrow> byte list"
  HexToECDSA :: "string \<Rightarrow> error + byte list"
  NewECDSAKeyFromPrivKeyBytes :: "byte list \<Rightarrow> crypto_Key"
  Sign :: "byte list \<Rightarrow> byte list \<Rightarrow> byte list \<Rightarrow> error + byte list"
  Verify :: "byte list \<Rightarrow> byte list \<Rightarrow> byte list \<Rightarrow> byte list \<Rightarrow> bool \<times> error option"
  ParseSignature :: "byte list \<Rightarrow> error + int \<times> int"
  Serialize :: "int \<Rightarrow> int \<Rightarrow> byte list"
  DecodeSpare :: decode_spare

section \<open>Building the unsigned transaction (\<^verbatim>\<open>buildtx.go\<close>)\<close>

definition defaultFee :: "64 word" where
  "defaultFee = 10"

definition accountReserve :: int where
  "accountReserve = 10000000"

text \<open>\<^verbatim>\<open>(*big.Int).IsInt64\<close> and \<^verbatim>\<open>(*big.Int).Int64\<close>.\<close>

definition big_IsInt64 :: "int \<Rightarrow> bool" where
  "big_IsInt64 a = (- (2 ^ 63) \<le> a \<and> a < 2 ^ 63)"

definition big_Int64 :: "int \<Rightarrow> 64 word" where
  "big_Int64 a = word_of_int a"

text \<open>The flags of a payment (\<^verbatim>\<open>data.TxNoDirectRipple\<close> and its neighbours).\<close>

definition TxNoDirectRipple :: "32 word" where
  "TxNoDirectRipple = 0x00010000"

definition TxPartialPayment :: "32 word" where
  "TxPartialPayment = 0x00020000"

definition TxLimitQuality :: "32 word" where
  "TxLimitQuality = 0x00040000"

text \<open>Go's \<^verbatim>\<open>copy(dst, src)\<close> into a fixed array: the first \<open>min\<close> of the lengths.\<close>

definition copy_into :: "'a list \<Rightarrow> 'a list \<Rightarrow> 'a list" where
  "copy_into dst src = take (length dst) (src @ drop (length src) dst)"

text \<open>\<^verbatim>\<open>[]byte(s)\<close>: the bytes of a string.\<close>

definition FromText :: "string \<Rightarrow> byte list" where
  "FromText s = map (\<lambda>c. of_nat (of_char c)) s"

text \<open>\<^verbatim>\<open>getReceiverAndAmount\<close> (lines 121 to 143).\<close>

definition getReceiverAndAmount ::
  "bridge_env \<Rightarrow> build_tx_args \<Rightarrow> string \<Rightarrow> error + string \<times> int" where
  "getReceiverAndAmount b args multichainToken =
     (let receiver = args_Bind args in
      if receiver = [] \<or> \<not> IsValidAddress b (args_Bind args) then Inl ErrInvalidReceiver
      else
        (case GetBridgeByChainID b (args_FromChainID args) of
           None \<Rightarrow> Inl ErrNoBridgeForChainID
         | Some fromBridge_GetTokenConfig \<Rightarrow>
            (case args_ERC20SwapInfo args of
               None \<Rightarrow> Inl PanicNilDereference
             | Some erc20SwapInfo \<Rightarrow>
                (case fromBridge_GetTokenConfig (si_Token erc20SwapInfo) of
                   None \<Rightarrow> Inl ErrMissTokenConfig
                 | Some fromTokenCfg \<Rightarrow>
                    (case GetTokenConfig b multichainToken of
                       None \<Rightarrow> Inl ErrMissTokenConfig
                     | Some toTokenCfg \<Rightarrow>
                        Inr (receiver,
                             CalcSwapValue b (si_TokenID erc20SwapInfo) (ChainID b)
                               (args_OriginValue args) (tc_Decimals fromTokenCfg)
                               (tc_Decimals toTokenCfg) (args_OriginFrom args)
                               (args_OriginTxTo args)))))))"

text \<open>
  \<^verbatim>\<open>getPaymentAmount\<close> (lines 145 to 176). \<^verbatim>\<open>amount.Int64()\<close> is reached only behind the
  \<^verbatim>\<open>IsInt64\<close> check; \<^verbatim>\<open>-int64(token.Decimals)\<close> negates the widened \<^verbatim>\<open>uint8\<close>.
\<close>

definition getPaymentAmount ::
  "data_env \<Rightarrow> int \<Rightarrow> token_config \<Rightarrow> error + data_Amount" where
  "getPaymentAmount d amount token =
     (case currencyMap d (rx_Currency (tc_RippleExtra token)) of
        None \<Rightarrow> Inl (ErrNonExistCurrency (rx_Currency (tc_RippleExtra token)))
      | Some currency \<Rightarrow>
          if \<not> big_IsInt64 amount then Inl (ErrAmountOverflow amount)
          else if Currency_IsNative d currency then NewAmount d (big_Int64 amount)
          else
            (case issuerMap d (rx_Issuer (tc_RippleExtra token)) of
               None \<Rightarrow> Inl (ErrNonExistIssuer (rx_Issuer (tc_RippleExtra token)))
             | Some issuer \<Rightarrow>
                (case NewNonNativeValue d (big_Int64 amount) (- ucast (tc_Decimals token)) of
                   Inl err \<Rightarrow> Inl err
                 | Inr v \<Rightarrow>
                     Inr \<lparr>am_Value = v, am_Currency = currency, am_Issuer = issuer\<rparr>)))"

text \<open>\<^verbatim>\<open>getMinReserveFee\<close> (lines 178 to 188).\<close>

definition getMinReserveFee :: "bridge_env \<Rightarrow> int" where
  "getMinReserveFee b =
     (if \<not> HasRouterConfig b then 0
      else (case GetMinReserveFee b (ChainID b) of None \<Rightarrow> 100000 | Some minReserve \<Rightarrow> minReserve))"

text \<open>\<^verbatim>\<open>GetPoolNonce\<close> (lines 260 to 270) and \<^verbatim>\<open>GetSeq\<close> (lines 273 to 283).\<close>

definition GetPoolNonce :: "bridge_env \<Rightarrow> string \<Rightarrow> error + 64 word" where
  "GetPoolNonce b address =
     (case GetAccount b address of
        Inl err \<Rightarrow> Inl (ErrCannotGetAccount err)
      | Inr account \<Rightarrow>
         (case acc_Sequence account of
            None \<Rightarrow> Inr (ucast (0 :: 32 word))
          | Some seq \<Rightarrow> Inr (ucast seq)))"

definition GetSeq :: "bridge_env \<Rightarrow> build_tx_args \<Rightarrow> error + 64 word" where
  "GetSeq b args =
     (case GetPoolNonce b (args_From args) of
        Inl err \<Rightarrow> Inl err
      | Inr nonceVal \<Rightarrow> Inr (AdjustNonce b (args_From args) nonceVal))"

text \<open>
  \<^verbatim>\<open>swapoutDefaultArgs\<close> (lines 190 to 212). A failed \<^verbatim>\<open>GetSeq\<close> is logged and the function
  goes on to \<^verbatim>\<open>*args.Sequence = *seq\<close> with \<^verbatim>\<open>seq\<close> nil: a nil dereference. The only
  \<open>Inl\<close> results are panics.
\<close>

definition swapoutDefaultArgs ::
  "bridge_env \<Rightarrow> data_env \<Rightarrow> build_tx_args \<Rightarrow> string \<Rightarrow> error + all_extras" where
  "swapoutDefaultArgs b d txargs multichainToken =
     (case GetTokenConfig b multichainToken of
        None \<Rightarrow> Inr \<lparr>ax_Sequence = Some 0, ax_Fee = Some []\<rparr>
      | Some token \<Rightarrow>
         (case GetSeq b txargs of
            Inl err \<Rightarrow> Inl PanicNilDereference
          | Inr seq \<Rightarrow>
             (case NewNativeValue d defaultFee of
                Inl _ \<Rightarrow> Inl PanicNilDereference
              | Inr fei \<Rightarrow>
                  Inr \<lparr>ax_Sequence = Some seq, ax_Fee = Some (Value_String d fei)\<rparr>)))"

text \<open>
  \<^verbatim>\<open>checkNativeBalance\<close> (lines 214 to 237). The balance counts as zero only when the fetch
  failed and gave no balance; a nil balance without an error is dereferenced.
\<close>

definition checkNativeBalance ::
  "bridge_env \<Rightarrow> string \<Rightarrow> int option \<Rightarrow> bool \<Rightarrow> error + unit" where
  "checkNativeBalance b account amount isPay =
     (case GetBalance b account of
        (balance0, err) \<Rightarrow>
          (case (if err \<noteq> None \<and> balance0 = None then Some 0 else balance0) of
             None \<Rightarrow> Inl PanicNilDereference
           | Some balance \<Rightarrow>
              (let remain =
                     (case amount of
                        None \<Rightarrow> balance
                      | Some a \<Rightarrow> if isPay then balance - a else balance + a)
               in if remain < accountReserve
                  then (if isPay then Inl (ErrInsufficientNativeSender account)
                        else Inl (ErrInsufficientNativeReceiver account))
                  else Inr ())))"

text \<open>\<^verbatim>\<open>checkNonNativeBalance\<close> (lines 239 to 248).\<close>

definition checkNonNativeBalance ::
  "bridge_env \<Rightarrow> data_env \<Rightarrow> string \<Rightarrow> string \<Rightarrow> string \<Rightarrow> data_Amount \<Rightarrow> error + unit" where
  "checkNonNativeBalance b d currency issuer account amount =
     (case GetAccountLine b currency issuer account of
        Inl err \<Rightarrow> Inl err
      | Inr accl_Balance_Value \<Rightarrow>
          if Value_Compare d accl_Balance_Value (am_Value amount) < 0
          then Inl (ErrInsufficientIssued currency issuer account)
          else Inr ())"

text \<open>
  \<^verbatim>\<open>NewUnsignedPaymentTransaction\<close> (lines 287 to 349). It has no error result: a fee that
  does not parse and a failed signing hash both return a nil transaction, a zero hash
  and a nil message. The only \<open>Inl\<close> results are panics (a nil account or amount
  dereferenced at line 299).
\<close>

definition NewUnsignedPaymentTransaction ::
  "data_env \<Rightarrow> crypto_env \<Rightarrow> crypto_Key \<Rightarrow> 32 word option \<Rightarrow> 32 word \<Rightarrow> string \<Rightarrow>
     32 word option \<Rightarrow> string \<Rightarrow> string \<Rightarrow> string \<Rightarrow> string \<Rightarrow> bool \<Rightarrow> bool \<Rightarrow> bool \<Rightarrow>
     error + payment option \<times> byte list \<times> byte list" where
  "NewUnsignedPaymentTransaction d c key keyseq txseq dest destinationTag amt fee memo path
       nodirect partial limit =
     (case (parseAccount d dest, parseAmount d amt) of
        (Some destination, Some amount) \<Rightarrow>
          (let flags0 = (0 :: 32 word);
               flags1 = (if nodirect then flags0 OR TxNoDirectRipple else flags0);
               flags2 = (if partial then flags1 OR TxPartialPayment else flags1);
               flags3 = (if limit then flags2 OR TxLimitQuality else flags2);
               payment0 =
                 \<lparr>pay_TransactionType = PAYMENT,
                  pay_Flags = Some flags3,
                  pay_Account = replicate 20 0,
                  pay_Sequence = txseq,
                  pay_Fee = None,
                  pay_SigningPubKey = None,
                  pay_TxnSignature = None,
                  pay_Hash = replicate 32 0,
                  pay_Memos = (if memo \<noteq> [] then [(FromText ''BIND'', FromText memo)] else []),
                  pay_Destination = destination,
                  pay_Amount = amount,
                  pay_Paths = (if path \<noteq> [] then parsePaths d path else None),
                  pay_DestinationTag = destinationTag\<rparr>
           in case NewValue d fee True of
                Inl err \<Rightarrow> Inr (None, replicate 32 0, [])
              | Inr fei \<Rightarrow>
                 (let payment1 =
                        payment0
                          \<lparr>pay_Fee := Some fei,
                           pay_Account := copy_into (pay_Account payment0) (Key_Id c key keyseq),
                           pay_SigningPubKey :=
                             Some (copy_into (replicate 33 0) (Key_Public c key keyseq)),
                           pay_TxnSignature := Some []\<rparr>
                  in case SigningHash d payment1 of
                       Inl err \<Rightarrow> Inr (None, replicate 32 0, [])
                     | Inr (hash, msg) \<Rightarrow> Inr (Some payment1, hash, msg)))
      | _ \<Rightarrow> Inl PanicNilDereference)"

text \<open>
  \<^verbatim>\<open>BuildRawTransaction\<close>, lines 25 to 92: the checks of the request, the receiver and the
  amount, the sequence and the fee (from \<^verbatim>\<open>args.Extra\<close>, filled by \<^verbatim>\<open>swapoutDefaultArgs\<close>
  when nil), and the payment amount. The second component is the request with
  \<^verbatim>\<open>args.Extra\<close> as the code leaves it.
\<close>

record build_inputs =
  bi_mpcPubkey :: string
  bi_token :: token_config
  bi_receiver :: string
  bi_amount :: int
  bi_sequence :: "64 word"
  bi_fee :: string
  bi_amt :: data_Amount

definition BuildRawTransaction_resolve ::
  "bridge_env \<Rightarrow> data_env \<Rightarrow> build_tx_args \<Rightarrow> (error + build_inputs) \<times> build_tx_args" where
  "BuildRawTransaction_resolve b d args =
     (if \<not> IsTestMode b \<and> args_ToChainID args \<noteq> ChainID b then (Inl ErrToChainIDMismatch, args)
      else if args_From args = [] then (Inl ErrForbidEmptySender, args)
      else
        (case GetRouterMPC b (GetTokenID b args) (ChainID b) of
           Inl err \<Rightarrow> (Inl err, args)
         | Inr routerMPC \<Rightarrow>
            if \<not> EqualFold b (args_From args) routerMPC then (Inl ErrSenderMismatch, args)
            else if args_SwapType args \<noteq> ERC20SwapType then (Inl ErrSwapTypeNotSupported, args)
            else
              (let mpcPubkey = GetMPCPublicKey b (args_From args) in
               if mpcPubkey = [] then (Inl ErrMissMPCPublicKey, args)
               else
                 (case args_ERC20SwapInfo args of
                    None \<Rightarrow> (Inl PanicNilDereference, args)
                  | Some erc20SwapInfo \<Rightarrow>
                     (let multichainToken =
                            GetCachedMultichainToken b (si_TokenID erc20SwapInfo)
                              (args_ToChainID args)
                      in if multichainToken = [] then (Inl ErrMissTokenConfig, args)
                         else
                           (case GetTokenConfig b multichainToken of
                              None \<Rightarrow> (Inl ErrMissTokenConfig, args)
                            | Some token \<Rightarrow>
                               (case getReceiverAndAmount b args multichainToken of
                                  Inl err \<Rightarrow> (Inl err, args)
                                | Inr (receiver, amount) \<Rightarrow>
                                   (case (case args_Extra args of
                                            None \<Rightarrow>
                                              (case swapoutDefaultArgs b d args multichainToken of
                                                 Inl err \<Rightarrow> Inl err
                                               | Inr extra \<Rightarrow>
                                                   (case (ax_Sequence extra, ax_Fee extra) of
                                                      (Some s, Some f) \<Rightarrow>
                                                        Inr (s, f, args\<lparr>args_Extra := Some extra\<rparr>)
                                                    | _ \<Rightarrow> Inl PanicNilDereference))
                                          | Some extra \<Rightarrow>
                                              Inr (case ax_Sequence extra of None \<Rightarrow> 0 | Some s \<Rightarrow> s,
                                                   case ax_Fee extra of None \<Rightarrow> [] | Some f \<Rightarrow> f,
                                                   args)) of
                                      Inl err \<Rightarrow> (Inl err, args)
                                    | Inr (sequence, fee, args') \<Rightarrow>
                                       (case getPaymentAmount d amount token of
                                          Inl err \<Rightarrow> (Inl err, args')
                                        | Inr amt \<Rightarrow>
                                            (Inr \<lparr>bi_mpcPubkey = mpcPubkey,
                                                  bi_token = token,
                                                  bi_receiver = receiver,
                                                  bi_amount = amount,
                                                  bi_sequence = sequence,
                                                  bi_fee = fee,
                                                  bi_amt = amt\<rparr>, args'))))))))))"

text \<open>
  \<^verbatim>\<open>BuildRawTransaction\<close>, lines 94 to 113: the balance checks of a native and of an
  issued-asset send.
\<close>

definition BuildRawTransaction_balances ::
  "bridge_env \<Rightarrow> data_env \<Rightarrow> string \<Rightarrow> build_inputs \<Rightarrow> error + unit" where
  "BuildRawTransaction_balances b d sender i =
     (if RippleExtra_IsNative d (tc_RippleExtra (bi_token i)) then
        (let needAmount = bi_amount i + getMinReserveFee b in
         case checkNativeBalance b sender (Some needAmount) True of
           Inl err \<Rightarrow> Inl err
         | Inr _ \<Rightarrow> checkNativeBalance b (bi_receiver i) (Some (bi_amount i)) False)
      else
        (case checkNativeBalance b (bi_receiver i) None False of
           Inl err \<Rightarrow> Inl err
         | Inr _ \<Rightarrow>
             checkNonNativeBalance b d (rx_Currency (tc_RippleExtra (bi_token i)))
               (rx_Issuer (tc_RippleExtra (bi_token i))) sender (bi_amt i)))"

text \<open>
  \<^verbatim>\<open>BuildRawTransaction\<close> (lines 24 to 119). The last two lines build the payment, drop
  its hash and message, and return \<^verbatim>\<open>rawtx, err\<close> with \<^verbatim>\<open>err\<close> the nil of the last
  balance check: \<open>Inr None\<close> is the result \<^verbatim>\<open>(nil, nil)\<close>.
\<close>

definition BuildRawTransaction ::
  "bridge_env \<Rightarrow> data_env \<Rightarrow> crypto_env \<Rightarrow> build_tx_args \<Rightarrow>
     (error + payment option) \<times> build_tx_args" where
  "BuildRawTransaction b d c args =
     (case BuildRawTransaction_resolve b d args of
        (Inl err, args') \<Rightarrow> (Inl err, args')
      | (Inr i, args') \<Rightarrow>
         (case BuildRawTransaction_balances b d (args_From args) i of
            Inl err \<Rightarrow> (Inl err, args')
          | Inr _ \<Rightarrow>
             (let ripplePubKey = ImportPublicKey c (FromHex (bi_mpcPubkey i)) in
              case NewUnsignedPaymentTransaction d c ripplePubKey None (ucast (bi_sequence i))
                     (bi_receiver i) None (Amount_String d (bi_amt i)) (bi_fee i) [] []
                     False False False of
                Inl err \<Rightarrow> (Inl err, args')
              | Inr (rawtx, _, _) \<Rightarrow> (Inr rawtx, args'))))"

section \<open>Signing (\<^verbatim>\<open>signtx.go\<close>)\<close>

text \<open>\<^verbatim>\<open>verifyTransactionWithArgs\<close> (lines 24 to 41); the argument is already a payment.\<close>

definition verifyTransactionWithArgs ::
  "bridge_env \<Rightarrow> payment \<Rightarrow> build_tx_args \<Rightarrow> error + unit" where
  "verifyTransactionWithArgs b tx args =
     (if pay_TransactionType tx \<noteq> PAYMENT then Inl ErrNotPayment
      else
        (let to = pay_Destination tx; checkReceiver = args_Bind args in
         if \<not> EqualFold b to checkReceiver then Inl ErrVerifyReceiver else Inr ()))"

text \<open>
  \<^verbatim>\<open>MakeSignedTransaction\<close> (lines 173 to 187). The signature is decoded before the type
  of the transaction is looked at; \<^verbatim>\<open>*tx.GetSignature() = sig\<close> writes through the
  transaction's signature pointer.
\<close>

definition MakeSignedTransaction ::
  "data_env \<Rightarrow> crypto_env \<Rightarrow> byte list \<Rightarrow> string \<Rightarrow> raw_tx \<Rightarrow> error + payment" where
  "MakeSignedTransaction d c pubkey rsv transaction =
     (case rsvToSig (DecodeSpare c) (Serialize c) rsv (isEd25519Pubkey pubkey) of
        Inl err \<Rightarrow> Inl err
      | Inr sig \<Rightarrow>
         (case transaction of
            RawOther \<Rightarrow> Inl ErrTypeAssertion
          | RawPayment tx \<Rightarrow>
             (case pay_TxnSignature tx of
                None \<Rightarrow> Inl PanicNilDereference
              | Some _ \<Rightarrow>
                 (let tx1 = tx\<lparr>pay_TxnSignature := Some sig\<rparr> in
                  case Raw d tx1 of
                    Inl err \<Rightarrow> Inl err
                  | Inr (hash, _) \<Rightarrow> Inr (tx1\<lparr>pay_Hash := copy_into (pay_Hash tx1) hash\<rparr>)))))"

text \<open>
  \<^verbatim>\<open>SignTransactionWithRippleKey\<close> (lines 129 to 170) and \<^verbatim>\<open>SignTransactionWithPrivateKey\<close>
  (lines 124 to 126), which is given the bytes of the private key's \<^verbatim>\<open>D\<close>.
\<close>

definition SignTransactionWithRippleKey ::
  "data_env \<Rightarrow> crypto_env \<Rightarrow> raw_tx \<Rightarrow> crypto_Key \<Rightarrow> 32 word option \<Rightarrow>
     error + payment \<times> string" where
  "SignTransactionWithRippleKey d c rawTx key keyseq =
     (case rawTx of
        RawOther \<Rightarrow> Inl ErrSignTypeAssertion
      | RawPayment tx \<Rightarrow>
         (case SigningHash d tx of
            Inl err \<Rightarrow> Inl err
          | Inr (msgHash, msg0) \<Rightarrow>
             (let msg = SigningPrefix d tx @ msg0 in
              case Sign c (Key_Private c key keyseq) msgHash msg of
                Inl err \<Rightarrow> Inl (ErrSignHash err)
              | Inr sig \<Rightarrow>
                 (let pubkey = Key_Public c key keyseq in
                  case Verify c pubkey msgHash msg sig of
                    (valid, err) \<Rightarrow>
                      if \<not> valid \<or> err \<noteq> None then Inl (ErrVerifySignature valid err)
                      else
                        (case (if isEd25519Pubkey pubkey then Inr (eddsa_rsv sig)
                               else (case ParseSignature c sig of
                                       Inl errf \<Rightarrow> Inl (ErrParseSignature errf)
                                     | Inr (R, S) \<Rightarrow> Inr (ecdsa_rsv R S))) of
                           Inl err \<Rightarrow> Inl err
                         | Inr rsv \<Rightarrow>
                            (case MakeSignedTransaction d c pubkey rsv (RawPayment tx) of
                               Inl err \<Rightarrow> Inl err
                             | Inr stx \<Rightarrow> Inr (stx, Hash_String d (pay_Hash stx))))))))"

definition SignTransactionWithPrivateKey ::
  "data_env \<Rightarrow> crypto_env \<Rightarrow> raw_tx \<Rightarrow> byte list \<Rightarrow> error + payment \<times> string" where
  "SignTransactionWithPrivateKey d c rawTx privKey_D =
     SignTransactionWithRippleKey d c rawTx (NewECDSAKeyFromPrivKeyBytes c privKey_D) None"

text \<open>
  \<^verbatim>\<open>MPCSignTransaction\<close>, lines 75 to 92: what is sent to the signing oracle for the
  public key text, the signing hash and the prefixed message: the algorithm tag, the
  public key text and the signing content. \<^verbatim>\<open>pubkeyStr[2:]\<close> panics on a text shorter than
  two characters.
\<close>

definition MPCSignTransaction_request ::
  "data_env \<Rightarrow> string \<Rightarrow> byte list \<Rightarrow> byte list \<Rightarrow> error + sign_type \<times> string \<times> string" where
  "MPCSignTransaction_request d pubkeyStr msgHash msg =
     (let pubkey = FromHex pubkeyStr; isEd = isEd25519Pubkey pubkey in
      if isEd then
        (if length pubkeyStr < 2 then Inl PanicSliceBounds
         else Inr (SignTypeEC256K1, drop 2 pubkeyStr, ToHex d msg))
      else Inr (SignTypeED25519, pubkeyStr, Hash_String d msgHash))"

text \<open>\<^verbatim>\<open>MPCSignTransaction\<close> (lines 44 to 121).\<close>

definition MPCSignTransaction ::
  "bridge_env \<Rightarrow> data_env \<Rightarrow> crypto_env \<Rightarrow> raw_tx \<Rightarrow> build_tx_args \<Rightarrow>
     error + payment \<times> string" where
  "MPCSignTransaction b d c rawTx args =
     (case rawTx of
        RawOther \<Rightarrow> Inl ErrTypeAssertion
      | RawPayment tx \<Rightarrow>
         (case verifyTransactionWithArgs b tx args of
            Inl err \<Rightarrow> Inl err
          | Inr _ \<Rightarrow>
             if SignWithPrivateKey b then
               (case HexToECDSA c (GetSignerPrivateKey b (ChainID b)) of
                  Inl errf \<Rightarrow> Inl errf
                | Inr ecPrikey \<Rightarrow> SignTransactionWithPrivateKey d c rawTx ecPrikey)
             else
               (let msgContext = GetExtraArgsJSON b args in
                case SigningHash d tx of
                  Inl err \<Rightarrow> Inl (ErrSigningHash err)
                | Inr (msgHash, msg0) \<Rightarrow>
                   (let msg = SigningPrefix d tx @ msg0;
                        pubkeyStr = GetMPCPublicKey b (args_From args);
                        pubkey = FromHex pubkeyStr;
                        isEd = isEd25519Pubkey pubkey
                    in case MPCSignTransaction_request d pubkeyStr msgHash msg of
                         Inl err \<Rightarrow> Inl err
                       | Inr (signType, pubkeyStr', signContent) \<Rightarrow>
                          (case DoSignOne b signType pubkeyStr' signContent msgContext of
                             Inl err \<Rightarrow> Inl err
                           | Inr (keyID, rsvs) \<Rightarrow>
                              if length rsvs \<noteq> 1 then Inl (ErrRsvCount (length rsvs) keyID)
                              else
                                (let rsv = rsvs ! 0 in
                                 case rsvToSig (DecodeSpare c) (Serialize c) rsv isEd of
                                   Inl err \<Rightarrow> Inl err
                                 | Inr sig \<Rightarrow>
                                    (case Verify c pubkey msgHash msg sig of
                                       (valid, err) \<Rightarrow>
                                         if \<not> valid \<or> err \<noteq> None
                                         then Inl (ErrVerifySignature valid err)
                                         else
                                           (case MakeSignedTransaction d c pubkey rsv rawTx of
                                              Inl err \<Rightarrow> Inl err
                                            | Inr signedTx \<Rightarrow>
                                                Inr (signedTx,
                                                     Hash_String d (pay_Hash signedTx))))))))))"

section \<open>An example ledger, router and key set\<close>

text \<open>
  Concrete collaborators on which the functions above can be run: a router with one
  sender, a ledger with a native token and one issued token, decimal text for values, and
  a toy signature scheme whose signatures are two bytes.
\<close>

definition ascii_lower :: "char \<Rightarrow> char" where
  "ascii_lower c =
     (let n = (of_char c :: nat) in if 65 \<le> n \<and> n \<le> 90 then char_of (n + 32) else c)"

definition ascii_EqualFold :: "string \<Rightarrow> string \<Rightarrow> bool" where
  "ascii_EqualFold s t = (map ascii_lower s = map ascii_lower t)"

function utoa10 :: "nat \<Rightarrow> string" where
  "utoa10 n = (if n < 10 then [''0123456789'' ! n] else utoa10 (n div 10) @ [''0123456789'' ! (n mod 10)])"
  by pat_completeness auto
termination
  by (relation "measure id") auto

declare utoa10.simps [simp del]

fun scan_digits10 :: "nat \<Rightarrow> string \<Rightarrow> nat option" where
  "scan_digits10 acc [] = Some acc"
| "scan_digits10 acc (c # cs) =
     (let n = (of_char c :: nat) in
      if 48 \<le> n \<and> n \<le> 57 then scan_digits10 (10 * acc + (n - 48)) cs else None)"

definition ex_sender :: string where
  "ex_sender = ''rSenderMPC''"

definition ex_receiver :: string where
  "ex_receiver = ''rReceiver''"

definition ex_ecdsa_pubkey :: string where
  "ex_ecdsa_pubkey =
     ''021111111111111111111111111111111111111111111111111111111111111111''"

definition ex_ed_pubkey :: string where
  "ex_ed_pubkey =
     ''ED1111111111111111111111111111111111111111111111111111111111111111''"

definition ex_native_token :: token_config where
  "ex_native_token = \<lparr>tc_Decimals = 6, tc_RippleExtra = \<lparr>rx_Currency = ''XRP'', rx_Issuer = []\<rparr>\<rparr>"

definition ex_issued_token :: token_config where
  "ex_issued_token =
     \<lparr>tc_Decimals = 6, tc_RippleExtra = \<lparr>rx_Currency = ''USD'', rx_Issuer = ''rIssuer''\<rparr>\<rparr>"

definition ex_native_value :: "int \<Rightarrow> data_Value" where
  "ex_native_value n = \<lparr>val_native = True, val_num = n, val_offset = 0\<rparr>"

definition ex_bridge :: bridge_env where
  "ex_bridge =
     \<lparr>IsTestMode = False,
      ChainID = ''1000005788240'',
      GetRouterMPC = (\<lambda>tokenID chainID. Inr ex_sender),
      GetMPCPublicKey = (\<lambda>a. if a = ex_sender then ex_ecdsa_pubkey else []),
      GetCachedMultichainToken = (\<lambda>tokenID chainID. tokenID),
      GetTokenConfig =
        (\<lambda>t. if t = ''XRP'' then Some ex_native_token
             else if t = ''USD'' then Some ex_issued_token else None),
      IsValidAddress = (\<lambda>a. a \<noteq> [] \<and> hd a = CHR ''r''),
      GetBridgeByChainID = (\<lambda>chainID. Some (\<lambda>t. Some ex_native_token)),
      CalcSwapValue = (\<lambda>tokenID chainID v fromDecimals toDecimals originFrom originTxTo. v),
      GetTokenID =
        (\<lambda>args. case args_ERC20SwapInfo args of None \<Rightarrow> [] | Some i \<Rightarrow> si_TokenID i),
      GetExtraArgsJSON = (\<lambda>args. ''{}''),
      HasRouterConfig = True,
      GetMinReserveFee = (\<lambda>chainID. None),
      AdjustNonce = (\<lambda>a n. n),
      GetAccount =
        (\<lambda>a. if a = ex_sender then Inr \<lparr>acc_Sequence = Some 7\<rparr>
             else Inl (ErrExternal ''actNotFound'')),
      GetBalance =
        (\<lambda>a. if a = ex_sender then (Some 20000000, None)
             else if a = ex_receiver then (Some 50000000, None)
             else (None, Some (ErrExternal ''actNotFound''))),
      GetAccountLine =
        (\<lambda>currency issuer a.
           if a = ex_sender then Inr \<lparr>val_native = False, val_num = 500, val_offset = - 6\<rparr>
           else Inl (ErrExternal ''no trust line'')),
      SignWithPrivateKey = False,
      GetSignerPrivateKey = (\<lambda>chainID. ''0102''),
      DoSignOne =
        (\<lambda>signType pubkey content context. Inr (''key-1'', [ecdsa_rsv 1 2])),
      EqualFold = ascii_EqualFold\<rparr>"

definition ex_data :: data_env where
  "ex_data =
     \<lparr>currencyMap = [''XRP'' \<mapsto> ''XRP'', ''USD'' \<mapsto> ''USD''],
      issuerMap = [''rIssuer'' \<mapsto> ''rIssuer''],
      Currency_IsNative = (\<lambda>cur. cur = ''XRP''),
      RippleExtra_IsNative = (\<lambda>x. rx_Currency x = ''XRP''),
      NewAmount =
        (\<lambda>n. Inr \<lparr>am_Value = ex_native_value (sint n), am_Currency = ''XRP'', am_Issuer = []\<rparr>),
      NewNonNativeValue =
        (\<lambda>n offset. Inr \<lparr>val_native = False, val_num = sint n, val_offset = sint offset\<rparr>),
      NewNativeValue = (\<lambda>n. Inr (ex_native_value (sint n))),
      NewValue =
        (\<lambda>s native.
           case (if s = [] then None else scan_digits10 0 s) of
             None \<Rightarrow> Inl (ErrExternal ''Invalid Number'')
           | Some n \<Rightarrow> Inr \<lparr>val_native = native, val_num = int n, val_offset = 0\<rparr>),
      Value_String = (\<lambda>v. utoa10 (nat (val_num v))),
      Value_Compare =
        (\<lambda>x y. if val_num x < val_num y then - 1 else if val_num x = val_num y then 0 else 1),
      Amount_String = (\<lambda>a. utoa10 (nat (val_num (am_Value a)))),
      parseAccount = (\<lambda>s. if s = [] then None else Some s),
      parseAmount =
        (\<lambda>s. case (if s = [] then None else scan_digits10 0 s) of
               None \<Rightarrow> None
             | Some n \<Rightarrow>
                 Some \<lparr>am_Value = ex_native_value (int n), am_Currency = ''XRP'',
                       am_Issuer = []\<rparr>),
      parsePaths = (\<lambda>s. Some s),
      SigningHash = (\<lambda>tx. Inr (replicate 32 7, FromText ''blob'')),
      SigningPrefix = (\<lambda>tx. [0x53, 0x54, 0x58, 0x00]),
      Raw = (\<lambda>tx. Inr (replicate 32 9, FromText ''raw'')),
      Hash_String = sprintf_X_bytes,
      ToHex = (\<lambda>bs. ''0x'' @ hex_EncodeToString bs)\<rparr>"

definition ex_crypto :: crypto_env where
  "ex_crypto =
     \<lparr>ImportPublicKey = Key,
      Key_Id = (\<lambda>k keyseq. case k of Key m \<Rightarrow> take 20 m),
      Key_Public = (\<lambda>k keyseq. case k of Key m \<Rightarrow> m),
      Key_Private = (\<lambda>k keyseq. case k of Key m \<Rightarrow> m),
      HexToECDSA = (\<lambda>s. Inr (FromHex s)),
      NewECDSAKeyFromPrivKeyBytes = Key,
      Sign = (\<lambda>priv hash msg. Inr (take 2 priv)),
      Verify = (\<lambda>pub hash msg sig. (sig = take 2 pub, None)),
      ParseSignature =
        (\<lambda>sig. case sig of
                 [r, s] \<Rightarrow> Inr (uint r, uint s)
               | _ \<Rightarrow> Inl (ErrExternal ''malformed signature'')),
      Serialize = (\<lambda>r s. [word_of_int r, word_of_int s]),
      DecodeSpare = spare_make\<rparr>"

definition ex_args :: build_tx_args where
  "ex_args =
     \<lparr>args_SwapID = ''swap-1'',
      args_SwapType = ERC20SwapType,
      args_From = ex_sender,
      args_Bind = ex_receiver,
      args_OriginFrom = ''0xfrom'',
      args_OriginTxTo = ''0xto'',
      args_OriginValue = 15000000,
      args_FromChainID = ''56'',
      args_ToChainID = ''1000005788240'',
      args_ERC20SwapInfo = Some \<lparr>si_Token = ''0xtoken'', si_TokenID = ''XRP''\<rparr>,
      args_Extra = None\<rparr>"

definition ex_payment :: payment where
  "ex_payment =
     \<lparr>pay_TransactionType = PAYMENT,
      pay_Flags = Some 0,
      pay_Account = replicate 20 1,
      pay_Sequence = 7,
      pay_Fee = Some (ex_native_value 10),
      pay_SigningPubKey = Some (FromHex ex_ecdsa_pubkey),
      pay_TxnSignature = Some [],
      pay_Hash = replicate 32 0,
      pay_Memos = [],
      pay_Destination = ex_receiver,
      pay_Amount =
        \<lparr>am_Value = ex_native_value 1000000, am_Currency = ''XRP'', am_Issuer = []\<rparr>,
      pay_Paths = None,
      pay_DestinationTag = None\<rparr>"

definition ex_extra :: all_extras where
  "ex_extra = \<lparr>ax_Sequence = Some 7, ax_Fee = Some ''10''\<rparr>"

definition ex_native_inputs :: "string \<Rightarrow> int \<Rightarrow> build_inputs" where
  "ex_native_inputs receiver amount =
     \<lparr>bi_mpcPubkey = ex_ecdsa_pubkey,
      bi_token = ex_native_token,
      bi_receiver = receiver,
      bi_amount = amount,
      bi_sequence = 7,
      bi_fee = ''10'',
      bi_amt = \<lparr>am_Value = ex_native_value amount, am_Currency = ''XRP'', am_Issuer = []\<rparr>\<rparr>"

definition ex_issued_inputs :: "string \<Rightarrow> int \<Rightarrow> build_inputs" where
  "ex_issued_inputs receiver amount =
     \<lparr>bi_mpcPubkey = ex_ecdsa_pubkey,
      bi_token = ex_issued_token,
      bi_receiver = receiver,
      bi_amount = amount,
      bi_sequence = 7,
      bi_fee = ''10'',
      bi_amt =
        \<lparr>am_Value = \<lparr>val_native = False, val_num = amount, val_offset = - 6\<rparr>,
         am_Currency = ''USD'', am_Issuer = ''rIssuer''\<rparr>\<rparr>"

definition ex_issued_args :: build_tx_args where
  "ex_issued_args =
     ex_args\<lparr>args_OriginValue := 1000,
             args_ERC20SwapInfo := Some \<lparr>si_Token = ''0xtoken'', si_TokenID = ''USD''\<rparr>\<rparr>"

text \<open>
  An RSV text of 130 characters that \<^verbatim>\<open>hex.DecodeString\<close> rejects at its first
  character.
\<close>

definition ex_malformed_rsv :: string where
  "ex_malformed_rsv = CHR ''G'' # replicate 129 CHR ''0''"

text \<open>A ledger on which no account can be fetched, and an oracle that answers twice.\<close>

definition ex_bridge_no_account :: bridge_env where
  "ex_bridge_no_account = ex_bridge\<lparr>GetAccount := (\<lambda>a. Inl (ErrExternal ''actNotFound''))\<rparr>"

definition ex_bridge_two_rsvs :: bridge_env where
  "ex_bridge_two_rsvs =
     ex_bridge\<lparr>DoSignOne := (\<lambda>signType pubkey content context.
                               Inr (''key-1'', [ecdsa_rsv 1 2, ecdsa_rsv 3 4]))\<rparr>"

text \<open>An oracle that reports the algorithm tag it was called with.\<close>

definition ex_bridge_echo :: bridge_env where
  "ex_bridge_echo =
     ex_bridge\<lparr>GetMPCPublicKey := (\<lambda>a. if a = ex_sender then ex_ed_pubkey else []),
               DoSignOne := (\<lambda>signType pubkey content context.
                               case signType of
                                 SignTypeEC256K1 \<Rightarrow> Inl (ErrExternal ''called with EC256K1'')
                               | SignTypeED25519 \<Rightarrow> Inl (ErrExternal ''called with ED25519''))\<rparr>"

text \<open>A signature check that rejects everything, and a library whose hashing fails.\<close>

definition ex_crypto_reject :: crypto_env where
  "ex_crypto_reject = ex_crypto\<lparr>Verify := (\<lambda>pub hash msg sig. (False, None))\<rparr>"

definition ex_data_no_hash :: data_env where
  "ex_data_no_hash = ex_data\<lparr>SigningHash := (\<lambda>tx. Inl (ErrExternal ''encode failed''))\<rparr>"

definition ex_args_bad_fee :: build_tx_args where
  "ex_args_bad_fee =
     ex_args\<lparr>args_OriginValue := 1000000,
             args_Extra := Some \<lparr>ax_Sequence = Some 3, ax_Fee = Some ''abc''\<rparr>\<rparr>"

definition ex_args_new_receiver :: build_tx_args where
  "ex_args_new_receiver = ex_args\<lparr>args_Bind := ''rNewAccount'', args_OriginValue := 1000000\<rparr>"

text \<open>
  Oracles that answer with an RSV text too short to slice, and with the RSV of the pair
  (2, 17), which the toy scheme accepts for the example key; a router that signs with
  its local key; the example payment as signed.
\<close>

definition ex_bridge_short_rsv :: bridge_env where
  "ex_bridge_short_rsv =
     ex_bridge\<lparr>DoSignOne := (\<lambda>signType pubkey content context. Inr (''key-1'', [''0102'']))\<rparr>"

definition ex_bridge_good_rsv :: bridge_env where
  "ex_bridge_good_rsv =
     ex_bridge\<lparr>DoSignOne := (\<lambda>signType pubkey content context.
                               Inr (''key-1'', [ecdsa_rsv 2 17]))\<rparr>"

definition ex_bridge_local_key :: bridge_env where
  "ex_bridge_local_key = ex_bridge\<lparr>SignWithPrivateKey := True\<rparr>"

definition ex_signed_payment :: "byte list \<Rightarrow> payment" where
  "ex_signed_payment sig = ex_payment\<lparr>pay_TxnSignature := Some sig, pay_Hash := replicate 32 9\<rparr>"

text \<open>A token whose currency code the ledger library does not know.\<close>

definition ex_unknown_token :: token_config where
  "ex_unknown_token = \<lparr>tc_Decimals = 6, tc_RippleExtra = \<lparr>rx_Currency = ''EUR'', rx_Issuer = []\<rparr>\<rparr>"

section \<open>Hexadecimal digits, bytes and numbers\<close>

lemma nat_lt16_cases:
  "(d::nat) < 16 \<Longrightarrow> d = 0 \<or> d = 1 \<or> d = 2 \<or> d = 3 \<or> d = 4 \<or> d = 5 \<or> d = 6 \<or> d = 7 \<or>
     d = 8 \<or> d = 9 \<or> d = 10 \<or> d = 11 \<or> d = 12 \<or> d = 13 \<or> d = 14 \<or> d = 15"
  by arith

lemma fromHexChar_upperhex: "d < 16 \<Longrightarrow> fromHexChar (upperhex ! d) = Some (of_nat d)"
  by (drule nat_lt16_cases) (auto simp: fromHexChar_def upperhex_def)

lemma digit16_hextable: "d < 16 \<Longrightarrow> digit16 (hextable ! d) = Some d"
  by (drule nat_lt16_cases) (auto simp: digit16_def hextable_def)

lemma hextable_no_sign: "d < 16 \<Longrightarrow> hextable ! d \<noteq> CHR ''-'' \<and> hextable ! d \<noteq> CHR ''+''"
  by (drule nat_lt16_cases) (auto simp: hextable_def)

lemma nibble_take_bit:
  assumes "d < 16"
  shows "take_bit 4 (of_nat d :: byte) = of_nat d"
  using nat_lt16_cases [OF assms] by auto

lemma unat_nibble: "d < 16 \<Longrightarrow> unat (of_nat d :: byte) = d"
  by (drule nat_lt16_cases) auto

lemma nibble_split_hi:
  assumes "a < 16" "b < 16"
  shows "drop_bit 4 (push_bit 4 (of_nat a :: byte) OR of_nat b) = of_nat a"
proof -
  have "drop_bit 4 (push_bit 4 (take_bit 4 (of_nat a :: byte)) OR take_bit 4 (of_nat b)) = take_bit 4 (of_nat a)"
    by (auto simp: bit_eq_iff bit_simps)
  then show ?thesis using assms by (simp add: nibble_take_bit)
qed

lemma nibble_split_lo:
  assumes "a < 16" "b < 16"
  shows "(push_bit 4 (of_nat a :: byte) OR of_nat b) AND 15 = of_nat b"
proof -
  have m: "(15 :: byte) = mask 4" by (simp add: mask_eq_exp_minus_1)
  have "(push_bit 4 (take_bit 4 (of_nat a :: byte)) OR take_bit 4 (of_nat b)) AND mask 4 = take_bit 4 (of_nat b)"
    by (auto simp: bit_eq_iff bit_simps)
  then show ?thesis using assms by (simp add: nibble_take_bit m)
qed

lemma decode_upper_digits:
  assumes "\<forall>d\<in>set ds. d < 16" "even (length ds)"
  shows "snd (hex_Decode (map ((!) upperhex) ds)) = None
       \<and> hex_EncodeToString (fst (hex_Decode (map ((!) upperhex) ds))) = map ((!) hextable) ds
       \<and> 2 * length (fst (hex_Decode (map ((!) upperhex) ds))) = length ds"
  using assms
proof (induction ds rule: induct_list012)
  case 1
  then show ?case by simp
next
  case (2 x)
  then show ?case by simp
next
  case (3 x y zs)
  then have x: "x < 16" and y: "y < 16" and zs: "\<forall>d\<in>set zs. d < 16" "even (length zs)"
    by simp_all
  define w :: byte where "w = push_bit 4 (of_nat x) OR of_nat y"
  obtain bs e where d: "hex_Decode (map ((!) upperhex) zs) = (bs, e)"
    by (cases "hex_Decode (map ((!) upperhex) zs)")
  from "3.IH"(1) [OF zs] d have e: "e = None"
    and enc: "hex_EncodeToString bs = map ((!) hextable) zs"
    and len: "2 * length bs = length zs"
    by simp_all
  have dec: "hex_Decode (map ((!) upperhex) (x # y # zs)) = (w # bs, None)"
    using x y d e by (simp add: fromHexChar_upperhex w_def)
  have hi: "unat (drop_bit 4 w) = x"
    unfolding w_def nibble_split_hi [OF x y] by (rule unat_nibble [OF x])
  have lo: "unat (w AND 15) = y"
    unfolding w_def nibble_split_lo [OF x y] by (rule unat_nibble [OF y])
  have "hex_EncodeToString (w # bs) = map ((!) hextable) (x # y # zs)"
    by (simp only: hex_EncodeToString.simps hi lo enc list.map)
  then show ?case using dec len by simp
qed

lemma decode_upper_append:
  assumes "\<forall>d\<in>set xs. d < 16" "even (length xs)"
  shows "hex_Decode (map ((!) upperhex) xs @ t) =
           (fst (hex_Decode (map ((!) upperhex) xs)) @ fst (hex_Decode t), snd (hex_Decode t))"
  using assms
proof (induction xs rule: induct_list012)
  case 1
  then show ?case by simp
next
  case (2 x)
  then show ?case by simp
next
  case (3 x y zs)
  then have x: "x < 16" and y: "y < 16" and zs: "\<forall>d\<in>set zs. d < 16" "even (length zs)"
    by simp_all
  from "3.IH"(1) [OF zs] x y show ?case
    by (simp add: fromHexChar_upperhex split: prod.splits)
qed

lemma scan_lower_digits:
  "\<forall>d\<in>set ds. d < 16 \<Longrightarrow>
     scan_digits16 acc (map ((!) hextable) ds) = Some (foldl (\<lambda>a d. 16 * a + d) acc ds)"
  by (induction ds arbitrary: acc) (simp_all add: digit16_hextable)

lemma SetString_lower_digits:
  assumes "\<forall>d\<in>set ds. d < 16" "ds \<noteq> []"
  shows "big_SetString16 (map ((!) hextable) ds) = Some (int (foldl (\<lambda>a d. 16 * a + d) 0 ds))"
proof -
  obtain x xs where ds: "ds = x # xs" using assms(2) by (cases ds) auto
  with assms(1) have "x < 16" by simp
  then have "hextable ! x \<noteq> CHR ''-''" "hextable ! x \<noteq> CHR ''+''"
    using hextable_no_sign by blast+
  then show ?thesis
    using scan_lower_digits [OF assms(1), of 0] by (simp add: big_SetString16_def ds)
qed

lemma utoa16_digits: "\<forall>d\<in>set (utoa16 n). d < 16"
  by (induction n rule: utoa16.induct) (subst utoa16.simps, auto)

lemma utoa16_value:
  "foldl (\<lambda>a d. 16 * a + d) acc (utoa16 n) = acc * 16 ^ length (utoa16 n) + n"
proof (induction n arbitrary: acc rule: utoa16.induct)
  case (1 n)
  show ?case
  proof (cases "n < 16")
    case True
    then show ?thesis by (subst (1 2) utoa16.simps) simp
  next
    case False
    have "foldl (\<lambda>a d. 16 * a + d) acc (utoa16 n)
        = 16 * foldl (\<lambda>a d. 16 * a + d) acc (utoa16 (n div 16)) + n mod 16"
      using False by (subst utoa16.simps) simp
    also have "\<dots> = 16 * (acc * 16 ^ length (utoa16 (n div 16)) + n div 16) + n mod 16"
      using "1.IH" [OF False] by simp
    also have "\<dots> = acc * 16 ^ length (utoa16 n) + n"
      using False by (subst (2) utoa16.simps) (simp add: algebra_simps)
    finally show ?thesis .
  qed
qed

lemma utoa16_length: "0 < k \<Longrightarrow> n < 16 ^ k \<Longrightarrow> length (utoa16 n) \<le> k"
proof (induction n arbitrary: k rule: utoa16.induct)
  case (1 n)
  show ?case
  proof (cases "n < 16")
    case True
    then show ?thesis using "1.prems" by (subst utoa16.simps) simp
  next
    case False
    obtain j where k: "k = Suc j"
      using "1.prems"(1) by (cases k) auto
    have j: "0 < j"
    proof (rule ccontr)
      assume "\<not> 0 < j"
      then have "n < 16" using "1.prems"(2) k by simp
      with False show False by simp
    qed
    have "n div 16 < 16 ^ j" using "1.prems"(2) k
      by (simp add: less_mult_imp_div_less)
    from "1.IH" [OF False j this] show ?thesis
      using False k by (subst utoa16.simps) simp
  qed
qed

lemma foldl_zeros:
  "foldl (\<lambda>a d. 16 * a + d) (0::nat) (replicate k 0 @ ds) = foldl (\<lambda>a d. 16 * a + d) 0 ds"
  by (induction k) simp_all

lemma nibble_hi:
  fixes v :: byte
  shows "unat (drop_bit 4 v) < 16"
proof -
  have "unat v < 256" using unsigned_less [of v, where ?'a = nat] by simp
  then show ?thesis by (simp add: unat_drop_bit_eq drop_bit_eq_div unat_div)
qed

lemma nibble_lo:
  fixes v :: byte
  shows "unat (v AND 15) < 16"
proof -
  have "unat (v AND 15) \<le> unat (15 :: byte)"
    by (rule word_and_le1 [THEN word_le_nat_alt [THEN iffD1]])
  then show ?thesis by simp
qed

lemma nibble_join:
  fixes v :: byte
  shows "push_bit 4 (drop_bit 4 v) OR (v AND 15) = v"
proof -
  have "(15 :: byte) = mask 4" by (simp add: mask_eq_exp_minus_1)
  then show ?thesis
    by (auto simp: bit_eq_iff bit_simps)
qed

lemma upperhex_no_x: "d < 16 \<Longrightarrow> upperhex ! d \<noteq> CHR ''x'' \<and> upperhex ! d \<noteq> CHR ''X''"
  by (drule nat_lt16_cases) (auto simp: upperhex_def)

lemma sprintf_064X_digits:
  assumes "0 \<le> R" "R < 2 ^ 256"
  shows "\<exists>ds. sprintf_064X R = map ((!) upperhex) ds \<and> length ds = 64
            \<and> (\<forall>d\<in>set ds. d < 16) \<and> int (foldl (\<lambda>a d. 16 * a + d) 0 ds) = R"
proof -
  define n where "n = nat R"
  define ds where "ds = replicate (64 - length (utoa16 n)) 0 @ utoa16 n"
  have "n < 2 ^ 256" using assms by (simp add: n_def nat_less_iff)
  then have "n < 16 ^ 64" by simp
  then have len: "length (utoa16 n) \<le> 64" by (intro utoa16_length) simp_all
  have z: "upperhex ! 0 = CHR ''0''" by (simp add: upperhex_def)
  have "sprintf_064X R = map ((!) upperhex) ds"
    using assms(1) by (simp add: sprintf_064X_def ds_def n_def z)
  moreover have "length ds = 64" using len by (simp add: ds_def)
  moreover have "\<forall>d\<in>set ds. d < 16" using utoa16_digits [of n] by (auto simp: ds_def)
  moreover have "int (foldl (\<lambda>a d. 16 * a + d) 0 ds) = R"
  proof -
    have "foldl (\<lambda>a d. 16 * a + d) 0 ds = n"
      unfolding ds_def foldl_zeros utoa16_value by simp
    then show ?thesis using assms(1) by (simp add: n_def)
  qed
  ultimately show ?thesis by blast
qed

lemma length_sprintf_064X:
  assumes "0 \<le> R" "R < 2 ^ 256"
  shows "length (sprintf_064X R) = 64"
  using sprintf_064X_digits [OF assms] by auto

lemma rsvToSig_ecdsa_decodes:
  assumes "0 \<le> R" "R < 2 ^ 256" "0 \<le> S" "S < 2 ^ 256"
  shows "rsvToSig spare Ser (ecdsa_rsv R S) False = Inr (Ser R S)"
proof -
  obtain dr where dr: "sprintf_064X R = map ((!) upperhex) dr" "length dr = 64"
      "\<forall>d\<in>set dr. d < 16" "int (foldl (\<lambda>a d. 16 * a + d) 0 dr) = R"
    using sprintf_064X_digits [OF assms(1,2)] by blast
  obtain dz where dz: "sprintf_064X S = map ((!) upperhex) dz" "length dz = 64"
      "\<forall>d\<in>set dz. d < 16" "int (foldl (\<lambda>a d. 16 * a + d) 0 dz) = S"
    using sprintf_064X_digits [OF assms(3,4)] by blast
  define br where "br = fst (hex_Decode (map ((!) upperhex) dr))"
  define bz where "bz = fst (hex_Decode (map ((!) upperhex) dz))"
  have er: "even (length dr)" and ez: "even (length dz)" using dr(2) dz(2) by simp_all
  have br: "hex_EncodeToString br = map ((!) hextable) dr" "length br = 32"
    using decode_upper_digits [OF dr(3) er] dr(2) by (simp_all add: br_def)
  have bz: "hex_EncodeToString bz = map ((!) hextable) dz" "length bz = 32"
    using decode_upper_digits [OF dz(3) ez] dz(2) by (simp_all add: bz_def)
  have tail: "hex_Decode ''00'' = ([0], None)" by (simp add: fromHexChar_def)
  have dec: "hex_Decode (ecdsa_rsv R S) = (br @ bz @ [0], None)"
    unfolding ecdsa_rsv_def dr(1) dz(1)
    by (simp only: decode_upper_append [OF dr(3) er] decode_upper_append [OF dz(3) ez]
        tail br_def bz_def fst_conv snd_conv)
  obtain b e where bd: "hex_DecodeString spare (ecdsa_rsv R S) = (b, e)"
    by (cases "hex_DecodeString spare (ecdsa_rsv R S)")
  then have b: "slice_elems b = br @ bz @ [0]"
    by (auto simp: hex_DecodeString_def dec)
  have s1: "slice_range b 0 32 = Inr br"
    by (simp add: slice_range_def slice_cap_def b br(2) bz(2))
  have s2: "slice_range b 32 64 = Inr bz"
    by (simp add: slice_range_def slice_cap_def b br(2) bz(2))
  have nr: "dr \<noteq> []" and nz: "dz \<noteq> []" using dr(2) dz(2) by auto
  have pr: "big_SetString16 (hex_EncodeToString br) = Some R"
    by (simp add: br(1) SetString_lower_digits [OF dr(3) nr] dr(4))
  have pz: "big_SetString16 (hex_EncodeToString bz) = Some S"
    by (simp add: bz(1) SetString_lower_digits [OF dz(3) nz] dz(4))
  show ?thesis
    by (simp add: rsvToSig_def bd s1 s2 pr pz)
qed

lemma decode_sprintf_X_bytes: "hex_Decode (sprintf_X_bytes sig) = (sig, None)"
proof (induction sig)
  case Nil
  then show ?case by simp
next
  case (Cons v vs)
  have h: "fromHexChar (upperhex ! unat (drop_bit 4 v)) = Some (drop_bit 4 v)"
    using fromHexChar_upperhex [OF nibble_hi [of v]] by simp
  have l: "fromHexChar (upperhex ! unat (v AND 15)) = Some (v AND 15)"
    using fromHexChar_upperhex [OF nibble_lo [of v]] by simp
  show ?case by (simp add: h l Cons.IH nibble_join)
qed

lemma length_sprintf_X_bytes: "length (sprintf_X_bytes sig) = 2 * length sig"
  by (induction sig) simp_all

lemma no_prefix_sprintf_X_bytes: "\<not> has0xPrefix (sprintf_X_bytes sig)"
proof (cases sig)
  case Nil
  then show ?thesis by (simp add: has0xPrefix_def)
next
  case (Cons v vs)
  then show ?thesis using upperhex_no_x [OF nibble_lo [of v]]
    by (simp add: has0xPrefix_def)
qed

lemma rsvToSig_eddsa_decodes:
  "rsvToSig spare Ser (eddsa_rsv sig) True = Inr sig"
  by (simp add: rsvToSig_def FromHex_def eddsa_rsv_def no_prefix_sprintf_X_bytes
      length_sprintf_X_bytes decode_sprintf_X_bytes)

text \<open>
  C9: the signature codec round-trips. For an ECDSA pair (R, S) with both numbers in
  \<open>[0, 2^256)\<close>, the RSV text is 130 characters (64 for R, 64 for S, 2 of padding) and
  \<^verbatim>\<open>rsvToSig\<close> returns the pair as the curve's encoder serialises it; for an EdDSA signature
  the RSV text decodes to the same bytes. This holds for every encoder and for every
  size of the decoding buffer.
\<close>

theorem rsv_codec_roundtrip:
  "(0 \<le> R \<and> R < 2 ^ 256 \<and> 0 \<le> S \<and> S < 2 ^ 256 \<longrightarrow>
      length (ecdsa_rsv R S) = 130
      \<and> rsvToSig spare Ser (ecdsa_rsv R S) False = Inr (Ser R S))
   \<and> rsvToSig spare Ser (eddsa_rsv sig) True = Inr sig"
proof (intro conjI impI)
  assume r: "0 \<le> R \<and> R < 2 ^ 256 \<and> 0 \<le> S \<and> S < 2 ^ 256"
  then show "length (ecdsa_rsv R S) = 130"
    by (simp add: ecdsa_rsv_def length_sprintf_064X)
  from r show "rsvToSig spare Ser (ecdsa_rsv R S) False = Inr (Ser R S)"
    by (intro rsvToSig_ecdsa_decodes) simp_all
next
  show "rsvToSig spare Ser (eddsa_rsv sig) True = Inr sig"
    by (rule rsvToSig_eddsa_decodes)
qed

theorem rsv_codec_roundtrip_witness:
  "(0::int) \<le> 255 \<and> (255::int) < 2 ^ 256 \<and> (0::int) \<le> 18 \<and> (18::int) < 2 ^ 256
   \<and> length (ecdsa_rsv 255 18) = 130
   \<and> rsvToSig spare_make (Serialize ex_crypto) (ecdsa_rsv 255 18) False
       = Inr (Serialize ex_crypto 255 18)
   \<and> rsvToSig spare_make (Serialize ex_crypto) (eddsa_rsv [1, 2, 0xAB]) True
       = Inr [1, 2, 0xAB]"
  using rsv_codec_roundtrip [of 255 18 spare_make "Serialize ex_crypto" "[1, 2, 0xAB]"]
  by simp

section \<open>Evaluating the examples\<close>

lemmas ex_defs = ex_bridge_def ex_data_def ex_crypto_def ex_args_def ex_payment_def
  ex_sender_def ex_receiver_def ex_native_token_def ex_issued_token_def ex_native_value_def
  ex_extra_def ex_native_inputs_def ascii_EqualFold_def ascii_lower_def ex_ecdsa_pubkey_def
  ex_ed_pubkey_def

lemmas build_defs = BuildRawTransaction_def BuildRawTransaction_resolve_def
  BuildRawTransaction_balances_def getReceiverAndAmount_def getPaymentAmount_def
  getMinReserveFee_def GetPoolNonce_def GetSeq_def swapoutDefaultArgs_def
  checkNativeBalance_def checkNonNativeBalance_def NewUnsignedPaymentTransaction_def
  defaultFee_def accountReserve_def big_IsInt64_def big_Int64_def utoa10.simps Let_def
  FromHex_def has0xPrefix_def fromHexChar_def copy_into_def

lemmas sign_defs = verifyTransactionWithArgs_def MPCSignTransaction_request_def
  isEd25519Pubkey_def FromHex_def has0xPrefix_def fromHexChar_def FromText_def Let_def

section \<open>The decoding buffer and the slice expressions of \<^verbatim>\<open>rsvToSig\<close>\<close>

lemma length_hex_Decode: "length (fst (hex_Decode s)) \<le> length s div 2"
  by (induction s rule: hex_Decode.induct) (auto split: option.splits prod.splits)

lemma cap_spare_make: "slice_cap (fst (hex_DecodeString spare_make s)) = length s div 2"
  using length_hex_Decode [of s]
  by (auto simp: hex_DecodeString_def slice_cap_def spare_make_def split: prod.splits)

lemma hex_EncodeToString_digits:
  "hex_EncodeToString bs =
     map ((!) hextable) (concat (map (\<lambda>v. [unat (drop_bit 4 v), unat (v AND 15)]) bs))"
  by (induction bs) simp_all

lemma SetString_encoded:
  assumes "bs \<noteq> []"
  shows "\<exists>n. big_SetString16 (hex_EncodeToString bs) = Some n"
proof -
  let ?ds = "concat (map (\<lambda>v. [unat (drop_bit 4 v), unat (v AND 15)]) bs)"
  have d: "\<forall>d\<in>set ?ds. d < 16" using nibble_hi nibble_lo by auto
  have n: "?ds \<noteq> []" using assms by (cases bs) auto
  show ?thesis
    unfolding hex_EncodeToString_digits using SetString_lower_digits [OF d n] by blast
qed

lemma slice_range_length:
  "slice_range b lo hi = Inr xs \<Longrightarrow> length xs = hi - lo"
  by (auto simp: slice_range_def slice_cap_def split: if_splits)

lemma rsvToSig_panic_iff:
  "(rsvToSig spare Ser rsv False = Inl PanicSliceBounds)
     = (slice_cap (fst (hex_DecodeString spare rsv)) < 64)"
proof -
  obtain b e where bd: "hex_DecodeString spare rsv = (b, e)"
    by (cases "hex_DecodeString spare rsv")
  show ?thesis
  proof (cases "slice_cap b < 64")
    case True
    then show ?thesis
      by (auto simp: rsvToSig_def bd slice_range_def split: sum.splits)
  next
    case False
    then obtain b1 b2 where s: "slice_range b 0 32 = Inr b1" "slice_range b 32 64 = Inr b2"
      by (auto simp: slice_range_def)
    have "b1 \<noteq> []" "b2 \<noteq> []"
      using slice_range_length [OF s(1)] slice_range_length [OF s(2)] by auto
    then obtain r z where "big_SetString16 (hex_EncodeToString b1) = Some r"
        "big_SetString16 (hex_EncodeToString b2) = Some z"
      using SetString_encoded by blast
    then show ?thesis using False by (simp add: rsvToSig_def bd s)
  qed
qed

lemma hex_Decode_bad_first:
  "fromHexChar c = None \<Longrightarrow> hex_Decode (c # cs) = ([], Some (InvalidByteError c))"
  by (cases cs) simp_all

lemma hex_EncodeToString_zeros:
  "hex_EncodeToString (replicate n 0) = replicate (2 * n) CHR ''0''"
  by (induction n) (simp_all add: hextable_def)

lemma scan_digits16_zeros: "scan_digits16 0 (replicate n CHR ''0'') = Some 0"
  by (induction n) (simp_all add: digit16_def)

lemma SetString_zeros: "0 < n \<Longrightarrow> big_SetString16 (replicate n CHR ''0'') = Some 0"
  by (cases n) (simp_all add: big_SetString16_def scan_digits16_zeros digit16_def)

lemma hex_Decode_ex_malformed:
  "hex_Decode ex_malformed_rsv = ([], Some (InvalidByteError CHR ''G''))"
  by (simp add: ex_malformed_rsv_def fromHexChar_def hex_Decode_bad_first)

lemma MakeSignedTransaction_panics:
  assumes "\<not> isEd25519Pubkey pubkey"
    and "slice_cap (fst (hex_DecodeString (DecodeSpare c) rsv)) < 64"
  shows "MakeSignedTransaction d c pubkey rsv transaction = Inl PanicSliceBounds"
  using assms rsvToSig_panic_iff [of "DecodeSpare c" "Serialize c" rsv]
  by (simp add: MakeSignedTransaction_def)

text \<open>
  C10, as stated, fails: the claim has the slice expressions of \<^verbatim>\<open>rsvToSig\<close> out of range for
  every RSV text that decodes to fewer than 64 bytes, every rejected text among them. A
  slice expression on a slice is bounded by the capacity, not the length. The text
  \<open>ex_malformed_rsv\<close> (130 characters, the first no hexadecimal digit) decodes to no byte
  at all and is rejected, yet its buffer holds 65 bytes: \<^verbatim>\<open>rsvToSig\<close> does not panic, it
  returns the serialised pair (0, 0) read from the bytes behind the decoded prefix.
\<close>

theorem long_malformed_rsv_does_not_panic:
  "length (fst (hex_Decode ex_malformed_rsv)) < 64
   \<and> snd (hex_Decode ex_malformed_rsv) = Some (InvalidByteError CHR ''G'')
   \<and> rsvToSig spare_make (Serialize ex_crypto) ex_malformed_rsv False = Inr [0, 0]"
proof -
  have len: "length ex_malformed_rsv = 130" by (simp add: ex_malformed_rsv_def)
  have b: "hex_DecodeString spare_make ex_malformed_rsv =
      (\<lparr>slice_elems = [], slice_spare = replicate 65 0\<rparr>, Some (InvalidByteError CHR ''G''))"
    by (simp add: hex_DecodeString_def hex_Decode_ex_malformed spare_make_def len)
  have s1: "slice_range \<lparr>slice_elems = [], slice_spare = replicate 65 0\<rparr> 0 32
              = Inr (replicate 32 0)"
    by (simp add: slice_range_def slice_cap_def)
  have s2: "slice_range \<lparr>slice_elems = [], slice_spare = replicate 65 0\<rparr> 32 64
              = Inr (replicate 32 0)"
    by (simp add: slice_range_def slice_cap_def)
  have "rsvToSig spare_make (Serialize ex_crypto) ex_malformed_rsv False = Inr [0, 0]"
    by (simp add: rsvToSig_def b s1 s2 hex_EncodeToString_zeros SetString_zeros ex_crypto_def)
  then show ?thesis by (simp add: hex_Decode_ex_malformed)
qed

text \<open>
  C10, amended: \<^verbatim>\<open>rsvToSig\<close> is not total on the ECDSA path. It panics with a slice out
  of range exactly when the slice that \<^verbatim>\<open>hex.DecodeString\<close> returns has a capacity below 64
  bytes; with the library allocating half the text's length, that is exactly when the
  RSV text is shorter than 128 characters, well-formed or not. For an ECDSA key
  \<^verbatim>\<open>MakeSignedTransaction\<close> then panics instead of returning an error.
\<close>

theorem rsvToSig_panics_iff_short_buffer:
  "((rsvToSig spare Ser rsv False = Inl PanicSliceBounds)
      = (slice_cap (fst (hex_DecodeString spare rsv)) < 64))
   \<and> ((rsvToSig spare_make Ser rsv False = Inl PanicSliceBounds) = (length rsv < 128))
   \<and> (\<not> isEd25519Pubkey pubkey \<and> slice_cap (fst (hex_DecodeString (DecodeSpare c) rsv)) < 64
        \<longrightarrow> MakeSignedTransaction d c pubkey rsv transaction = Inl PanicSliceBounds)"
proof (intro conjI impI)
  show "(rsvToSig spare Ser rsv False = Inl PanicSliceBounds)
      = (slice_cap (fst (hex_DecodeString spare rsv)) < 64)"
    by (rule rsvToSig_panic_iff)
  have "(length rsv div 2 < 64) = (length rsv < 128)" by arith
  then show "(rsvToSig spare_make Ser rsv False = Inl PanicSliceBounds) = (length rsv < 128)"
    by (simp add: rsvToSig_panic_iff cap_spare_make)
next
  assume "\<not> isEd25519Pubkey pubkey
      \<and> slice_cap (fst (hex_DecodeString (DecodeSpare c) rsv)) < 64"
  then show "MakeSignedTransaction d c pubkey rsv transaction = Inl PanicSliceBounds"
    by (simp add: MakeSignedTransaction_panics)
qed

theorem rsvToSig_panics_iff_short_buffer_witness:
  "\<not> isEd25519Pubkey [2, 1]
   \<and> slice_cap (fst (hex_DecodeString (DecodeSpare ex_crypto) ''00'')) < 64
   \<and> length ''00'' < (128 :: nat)
   \<and> rsvToSig spare_make (Serialize ex_crypto) ''00'' False = Inl PanicSliceBounds
   \<and> MakeSignedTransaction ex_data ex_crypto [2, 1] ''00'' (RawPayment ex_payment)
       = Inl PanicSliceBounds"
proof -
  have a: "\<not> isEd25519Pubkey [2, 1]
      \<and> slice_cap (fst (hex_DecodeString (DecodeSpare ex_crypto) ''00'')) < 64"
    by (simp add: isEd25519Pubkey_def cap_spare_make ex_crypto_def)
  note t = rsvToSig_panics_iff_short_buffer
    [where pubkey = "[2, 1]" and c = ex_crypto and rsv = "''00''" and d = ex_data
       and transaction = "RawPayment ex_payment" and Ser = "Serialize ex_crypto"]
  from t have "rsvToSig spare_make (Serialize ex_crypto) ''00'' False = Inl PanicSliceBounds"
    by simp
  moreover from t a have "MakeSignedTransaction ex_data ex_crypto [2, 1] ''00''
      (RawPayment ex_payment) = Inl PanicSliceBounds"
    by blast
  ultimately show ?thesis using a by simp
qed

section \<open>The signing pipeline\<close>

lemma local_gate:
  assumes "SigningHash d tx = Inr (msgHash, msg0)"
    and "Sign c (Key_Private c key keyseq) msgHash (SigningPrefix d tx @ msg0) = Inr sig"
    and "Verify c (Key_Public c key keyseq) msgHash (SigningPrefix d tx @ msg0) sig = (valid, err)"
    and "\<not> valid \<or> err \<noteq> None"
  shows "SignTransactionWithRippleKey d c (RawPayment tx) key keyseq
           = Inl (ErrVerifySignature valid err)"
  using assms by (auto simp: SignTransactionWithRippleKey_def)

lemma remote_gate:
  assumes "verifyTransactionWithArgs b tx args = Inr ()"
    and "\<not> SignWithPrivateKey b"
    and "SigningHash d tx = Inr (msgHash, msg0)"
    and "MPCSignTransaction_request d (GetMPCPublicKey b (args_From args)) msgHash
           (SigningPrefix d tx @ msg0) = Inr (signType, pubkeyStr, signContent)"
    and "DoSignOne b signType pubkeyStr signContent (GetExtraArgsJSON b args) = Inr (keyID, [rsv])"
    and "rsvToSig (DecodeSpare c) (Serialize c) rsv
           (isEd25519Pubkey (FromHex (GetMPCPublicKey b (args_From args)))) = Inr sig"
    and "Verify c (FromHex (GetMPCPublicKey b (args_From args))) msgHash
           (SigningPrefix d tx @ msg0) sig = (valid, err)"
    and "\<not> valid \<or> err \<noteq> None"
  shows "MPCSignTransaction b d c (RawPayment tx) args = Inl (ErrVerifySignature valid err)"
  using assms by (auto simp: MPCSignTransaction_def)

text \<open>
  A signed transaction comes back only behind an accepted check of the very signature
  the path obtained: the local signer's on the local path, the one decoded from the
  oracle's single RSV on the remote path, where it is also the signature the returned
  transaction carries. With local signing on, \<^verbatim>\<open>MPCSignTransaction\<close> is the local path
  for the configured key.
\<close>

lemma singleton_nth: "length xs = 1 \<Longrightarrow> xs = [xs ! 0]"
  by (cases xs) auto

lemma local_signed_verified:
  assumes "SignTransactionWithRippleKey d c rawTx key keyseq = Inr (stx, h)"
  shows "\<exists>tx mh m0 sg. rawTx = RawPayment tx \<and> SigningHash d tx = Inr (mh, m0)
            \<and> Sign c (Key_Private c key keyseq) mh (SigningPrefix d tx @ m0) = Inr sg
            \<and> Verify c (Key_Public c key keyseq) mh (SigningPrefix d tx @ m0) sg = (True, None)"
proof (cases rawTx)
  case RawOther
  with assms show ?thesis by (simp add: SignTransactionWithRippleKey_def)
next
  case (RawPayment tx)
  with assms obtain mh m0 where h: "SigningHash d tx = Inr (mh, m0)"
    by (cases "SigningHash d tx") (auto simp: SignTransactionWithRippleKey_def)
  with assms RawPayment obtain sg where
    s: "Sign c (Key_Private c key keyseq) mh (SigningPrefix d tx @ m0) = Inr sg"
    by (cases "Sign c (Key_Private c key keyseq) mh (SigningPrefix d tx @ m0)")
       (auto simp: SignTransactionWithRippleKey_def)
  obtain valid err where
    v: "Verify c (Key_Public c key keyseq) mh (SigningPrefix d tx @ m0) sg = (valid, err)"
    by (cases "Verify c (Key_Public c key keyseq) mh (SigningPrefix d tx @ m0) sg")
  have "valid \<and> err = None"
  proof (rule ccontr)
    assume "\<not> (valid \<and> err = None)"
    then have "\<not> valid \<or> err \<noteq> None" by auto
    from local_gate [OF h s v this] assms RawPayment show False by simp
  qed
  with v have "Verify c (Key_Public c key keyseq) mh (SigningPrefix d tx @ m0) sg = (True, None)"
    by simp
  with h s RawPayment show ?thesis by blast
qed

lemma remote_signed_verified:
  assumes ok: "MPCSignTransaction b d c rawTx args = Inr (stx, h)"
    and remote: "\<not> SignWithPrivateKey b"
  shows "\<exists>tx mh m0 signType pubkeyStr signContent keyID rsv sg.
           rawTx = RawPayment tx \<and> SigningHash d tx = Inr (mh, m0)
         \<and> MPCSignTransaction_request d (GetMPCPublicKey b (args_From args)) mh
               (SigningPrefix d tx @ m0) = Inr (signType, pubkeyStr, signContent)
         \<and> DoSignOne b signType pubkeyStr signContent (GetExtraArgsJSON b args)
               = Inr (keyID, [rsv])
         \<and> rsvToSig (DecodeSpare c) (Serialize c) rsv
               (isEd25519Pubkey (FromHex (GetMPCPublicKey b (args_From args)))) = Inr sg
         \<and> Verify c (FromHex (GetMPCPublicKey b (args_From args))) mh
               (SigningPrefix d tx @ m0) sg = (True, None)
         \<and> pay_TxnSignature stx = Some sg"
proof (cases rawTx)
  case RawOther
  with ok show ?thesis by (simp add: MPCSignTransaction_def)
next
  case (RawPayment tx)
  let ?pk = "GetMPCPublicKey b (args_From args)"
  from ok RawPayment remote have vt: "verifyTransactionWithArgs b tx args = Inr ()"
    by (cases "verifyTransactionWithArgs b tx args") (auto simp: MPCSignTransaction_def)
  from ok RawPayment remote vt obtain mh m0 where sh: "SigningHash d tx = Inr (mh, m0)"
    by (cases "SigningHash d tx") (auto simp: MPCSignTransaction_def)
  let ?msg = "SigningPrefix d tx @ m0"
  from ok RawPayment remote vt sh obtain st pk' content where
    rq: "MPCSignTransaction_request d ?pk mh ?msg = Inr (st, pk', content)"
    by (cases "MPCSignTransaction_request d ?pk mh ?msg")
       (auto simp: MPCSignTransaction_def Let_def)
  from ok RawPayment remote vt sh rq obtain keyID rsvs where
    ds: "DoSignOne b st pk' content (GetExtraArgsJSON b args) = Inr (keyID, rsvs)"
    by (cases "DoSignOne b st pk' content (GetExtraArgsJSON b args)")
       (auto simp: MPCSignTransaction_def Let_def)
  from ok RawPayment remote vt sh rq ds have len: "length rsvs = 1"
    by (auto simp: MPCSignTransaction_def Let_def split: if_splits)
  then have one: "rsvs = [rsvs ! 0]" by (rule singleton_nth)
  let ?rsv = "rsvs ! 0"
  from ok RawPayment remote vt sh rq ds len obtain sg where
    rs: "rsvToSig (DecodeSpare c) (Serialize c) ?rsv (isEd25519Pubkey (FromHex ?pk)) = Inr sg"
    by (cases "rsvToSig (DecodeSpare c) (Serialize c) ?rsv (isEd25519Pubkey (FromHex ?pk))")
       (auto simp: MPCSignTransaction_def Let_def)
  obtain valid err where v: "Verify c (FromHex ?pk) mh ?msg sg = (valid, err)"
    by (cases "Verify c (FromHex ?pk) mh ?msg sg")
  from ok RawPayment remote vt sh rq ds len rs v have acc: "valid \<and> err = None"
    by (auto simp: MPCSignTransaction_def Let_def split: if_splits)
  from ok RawPayment remote vt sh rq ds len rs v acc
  have "MakeSignedTransaction d c (FromHex ?pk) ?rsv (RawPayment tx) = Inr stx"
    by (auto simp: MPCSignTransaction_def Let_def split: sum.splits)
  then have sigtx: "pay_TxnSignature stx = Some sg"
    using rs
    by (auto simp: MakeSignedTransaction_def Let_def
        split: option.splits sum.splits prod.splits)
  from one ds
  have ds': "DoSignOne b st pk' content (GetExtraArgsJSON b args) = Inr (keyID, [?rsv])"
    by simp
  from v acc have v': "Verify c (FromHex ?pk) mh ?msg sg = (True, None)" by simp
  from RawPayment sh rq ds' rs v' sigtx show ?thesis by blast
qed

lemma local_key_mode:
  assumes "MPCSignTransaction b d c rawTx args = Inr (stx, h)"
    and "SignWithPrivateKey b"
  shows "\<exists>D. HexToECDSA c (GetSignerPrivateKey b (ChainID b)) = Inr D
           \<and> SignTransactionWithRippleKey d c rawTx (NewECDSAKeyFromPrivKeyBytes c D) None
               = Inr (stx, h)"
  using assms
  by (auto simp: MPCSignTransaction_def SignTransactionWithPrivateKey_def
      split: raw_tx.splits sum.splits)

lemma isEd_ex_ecdsa_pubkey: "\<not> isEd25519Pubkey (FromHex ex_ecdsa_pubkey)"
  by (simp add: isEd25519Pubkey_def FromHex_def ex_ecdsa_pubkey_def has0xPrefix_def
      fromHexChar_def)

lemma isEd_ex_ed_pubkey: "isEd25519Pubkey (FromHex ex_ed_pubkey)"
  by (simp add: isEd25519Pubkey_def FromHex_def ex_ed_pubkey_def has0xPrefix_def
      fromHexChar_def)

lemma verify_ex_payment: "verifyTransactionWithArgs b ex_payment ex_args
    = (if EqualFold b ex_receiver ex_receiver then Inr () else Inl ErrVerifyReceiver)"
  by (simp add: verifyTransactionWithArgs_def ex_payment_def ex_args_def)

lemma request_ex_ecdsa_pubkey:
  "MPCSignTransaction_request ex_data ex_ecdsa_pubkey msgHash msg
     = Inr (SignTypeED25519, ex_ecdsa_pubkey, Hash_String ex_data msgHash)"
  by (simp add: MPCSignTransaction_request_def isEd_ex_ecdsa_pubkey)

lemma SigningHash_ex_payment:
  "SigningHash ex_data ex_payment = Inr (replicate 32 7, FromText ''blob'')"
  by (simp add: ex_data_def)

lemma sign_ex_payment_short_rsv:
  "MPCSignTransaction ex_bridge_short_rsv ex_data ex_crypto (RawPayment ex_payment) ex_args
     = Inl PanicSliceBounds"
proof -
  have pk: "GetMPCPublicKey ex_bridge_short_rsv (args_From ex_args) = ex_ecdsa_pubkey"
    by (simp add: ex_bridge_short_rsv_def ex_bridge_def ex_args_def)
  have h1: "verifyTransactionWithArgs ex_bridge_short_rsv ex_payment ex_args = Inr ()"
    by (simp add: verify_ex_payment ex_bridge_short_rsv_def ex_bridge_def ascii_EqualFold_def)
  have h2: "\<not> SignWithPrivateKey ex_bridge_short_rsv"
    by (simp add: ex_bridge_short_rsv_def ex_bridge_def)
  have h5: "DoSignOne ex_bridge_short_rsv t k s m = Inr (''key-1'', [''0102''])" for t k s m
    by (simp add: ex_bridge_short_rsv_def ex_bridge_def)
  have p: "rsvToSig (DecodeSpare ex_crypto) (Serialize ex_crypto) ''0102'' False
      = Inl PanicSliceBounds"
    by (simp add: rsvToSig_panic_iff ex_crypto_def cap_spare_make)
  show ?thesis
    by (simp add: MPCSignTransaction_def h1 h2 SigningHash_ex_payment pk
        request_ex_ecdsa_pubkey h5 p isEd_ex_ecdsa_pubkey)
qed

lemma sign_ex_payment_good_rsv:
  "MPCSignTransaction ex_bridge_good_rsv ex_data ex_crypto (RawPayment ex_payment) ex_args
     = Inr (ex_signed_payment [2, 17], sprintf_X_bytes (replicate 32 9))"
proof -
  have pk: "GetMPCPublicKey ex_bridge_good_rsv (args_From ex_args) = ex_ecdsa_pubkey"
    by (simp add: ex_bridge_good_rsv_def ex_bridge_def ex_args_def)
  have h1: "verifyTransactionWithArgs ex_bridge_good_rsv ex_payment ex_args = Inr ()"
    by (simp add: verify_ex_payment ex_bridge_good_rsv_def ex_bridge_def ascii_EqualFold_def)
  have h2: "\<not> SignWithPrivateKey ex_bridge_good_rsv"
    by (simp add: ex_bridge_good_rsv_def ex_bridge_def)
  have h5: "DoSignOne ex_bridge_good_rsv t k s m = Inr (''key-1'', [ecdsa_rsv 2 17])" for t k s m
    by (simp add: ex_bridge_good_rsv_def ex_bridge_def)
  have p: "rsvToSig (DecodeSpare ex_crypto) (Serialize ex_crypto) (ecdsa_rsv 2 17) False
      = Inr [2, 17]"
    by (simp add: rsvToSig_ecdsa_decodes ex_crypto_def)
  have v: "Verify ex_crypto (FromHex ex_ecdsa_pubkey) m1 m2 [2, 17] = (True, None)" for m1 m2
    by (simp add: ex_crypto_def FromHex_def ex_ecdsa_pubkey_def has0xPrefix_def fromHexChar_def)
  have m: "MakeSignedTransaction ex_data ex_crypto (FromHex ex_ecdsa_pubkey) (ecdsa_rsv 2 17)
      (RawPayment ex_payment) = Inr (ex_signed_payment [2, 17])"
    by (simp add: MakeSignedTransaction_def isEd_ex_ecdsa_pubkey p ex_signed_payment_def)
       (simp add: ex_payment_def ex_data_def copy_into_def)
  show ?thesis
    by (simp add: MPCSignTransaction_def h1 h2 SigningHash_ex_payment pk
        request_ex_ecdsa_pubkey h5 p v m isEd_ex_ecdsa_pubkey)
       (simp add: ex_signed_payment_def ex_data_def)
qed

lemma sign_ex_payment_local:
  "SignTransactionWithRippleKey ex_data ex_crypto (RawPayment ex_payment) (Key [1, 2]) None
     = Inr (ex_signed_payment [1, 2], sprintf_X_bytes (replicate 32 9))"
proof -
  have ned: "\<not> isEd25519Pubkey [1, 2]" by (simp add: isEd25519Pubkey_def)
  have p: "rsvToSig (DecodeSpare ex_crypto) (Serialize ex_crypto) (ecdsa_rsv 1 2) False
      = Inr [1, 2]"
    by (simp add: rsvToSig_ecdsa_decodes ex_crypto_def)
  have m: "MakeSignedTransaction ex_data ex_crypto [1, 2] (ecdsa_rsv 1 2)
      (RawPayment ex_payment) = Inr (ex_signed_payment [1, 2])"
    by (simp add: MakeSignedTransaction_def ned p ex_signed_payment_def)
       (simp add: ex_payment_def ex_data_def copy_into_def)
  have k: "Key_Public ex_crypto (Key [1, 2]) None = [1, 2]"
    "Key_Private ex_crypto (Key [1, 2]) None = [1, 2]"
    by (simp_all add: ex_crypto_def)
  have s: "Sign ex_crypto [1, 2] m1 m2 = Inr [1, 2]" for m1 m2 by (simp add: ex_crypto_def)
  have v: "Verify ex_crypto [1, 2] m1 m2 [1, 2] = (True, None)" for m1 m2
    by (simp add: ex_crypto_def)
  have ps: "ParseSignature ex_crypto [1, 2] = Inr (1, 2)" by (simp add: ex_crypto_def)
  show ?thesis
    by (simp add: SignTransactionWithRippleKey_def SigningHash_ex_payment k s v ned ps m)
       (simp add: ex_signed_payment_def ex_data_def)
qed

lemma sign_ex_payment_local_key:
  "MPCSignTransaction ex_bridge_local_key ex_data ex_crypto (RawPayment ex_payment) ex_args
     = Inr (ex_signed_payment [1, 2], sprintf_X_bytes (replicate 32 9))"
proof -
  have h1: "verifyTransactionWithArgs ex_bridge_local_key ex_payment ex_args = Inr ()"
    by (simp add: verify_ex_payment ex_bridge_local_key_def ex_bridge_def ascii_EqualFold_def)
  have h2: "SignWithPrivateKey ex_bridge_local_key"
    by (simp add: ex_bridge_local_key_def ex_bridge_def)
  have k: "HexToECDSA ex_crypto (GetSignerPrivateKey ex_bridge_local_key
      (ChainID ex_bridge_local_key)) = Inr [1, 2]"
    by (simp add: ex_bridge_local_key_def ex_bridge_def ex_crypto_def FromHex_def
        has0xPrefix_def fromHexChar_def)
  have n: "NewECDSAKeyFromPrivKeyBytes ex_crypto [1, 2] = Key [1, 2]"
    by (simp add: ex_crypto_def)
  show ?thesis
    by (simp add: MPCSignTransaction_def h1 h2 k SignTransactionWithPrivateKey_def n
        sign_ex_payment_local)
qed

text \<open>
  C1, as stated, fails on the remote path: the oracle's RSV is decoded by \<^verbatim>\<open>rsvToSig\<close>
  (line 107) before it is verified (line 108). An RSV that is no signature at all, the
  text \<^verbatim>\<open>0102\<close> for an ECDSA key, makes \<^verbatim>\<open>rsvToSig\<close> panic on its slice expressions:
  \<^verbatim>\<open>MPCSignTransaction\<close> does not return an error, it crashes.
\<close>

theorem undecodable_rsv_panics_before_verification:
  "DoSignOne ex_bridge_short_rsv SignTypeED25519 ex_ecdsa_pubkey
       (Hash_String ex_data (replicate 32 7)) (GetExtraArgsJSON ex_bridge_short_rsv ex_args)
     = Inr (''key-1'', [''0102''])
   \<and> rsvToSig (DecodeSpare ex_crypto) (Serialize ex_crypto) ''0102'' False
     = Inl PanicSliceBounds
   \<and> MPCSignTransaction ex_bridge_short_rsv ex_data ex_crypto (RawPayment ex_payment) ex_args
     = Inl PanicSliceBounds"
proof -
  have "DoSignOne ex_bridge_short_rsv SignTypeED25519 ex_ecdsa_pubkey
       (Hash_String ex_data (replicate 32 7)) (GetExtraArgsJSON ex_bridge_short_rsv ex_args)
     = Inr (''key-1'', [''0102''])"
    by (simp add: ex_bridge_short_rsv_def ex_bridge_def)
  moreover have "rsvToSig (DecodeSpare ex_crypto) (Serialize ex_crypto) ''0102'' False
     = Inl PanicSliceBounds"
    by (simp add: rsvToSig_panic_iff ex_crypto_def cap_spare_make)
  ultimately show ?thesis using sign_ex_payment_short_rsv by simp
qed

text \<open>
  C1, amended: on both signing paths no signed transaction is returned unless the
  signature check accepted the signature the path obtained, against the public key, the
  computed signing hash and the prefixed payload; and when a signature is obtained (the
  local signer's, or the one \<^verbatim>\<open>rsvToSig\<close> decodes from the oracle's single RSV) and does
  not verify (the check says invalid, or fails), the operation returns the verification
  error. The five parts: the error of the local path; the error of the remote path; a
  result of the local path is behind an accepted check of the signer's signature; a
  result of the remote path is behind an accepted check of the decoded signature, which
  is the one the returned transaction carries; with local signing on,
  \<^verbatim>\<open>MPCSignTransaction\<close> returns what the local path returns for the configured key.
\<close>

theorem verification_gate:
  "(SigningHash d tx = Inr (msgHash, msg0)
     \<and> Sign c (Key_Private c key keyseq) msgHash (SigningPrefix d tx @ msg0) = Inr sig
     \<and> Verify c (Key_Public c key keyseq) msgHash (SigningPrefix d tx @ msg0) sig = (valid, err)
     \<and> (\<not> valid \<or> err \<noteq> None)
     \<longrightarrow> SignTransactionWithRippleKey d c (RawPayment tx) key keyseq
           = Inl (ErrVerifySignature valid err))
   \<and> (verifyTransactionWithArgs b tx args = Inr ()
     \<and> \<not> SignWithPrivateKey b
     \<and> SigningHash d tx = Inr (msgHash, msg0)
     \<and> MPCSignTransaction_request d (GetMPCPublicKey b (args_From args)) msgHash
           (SigningPrefix d tx @ msg0) = Inr (signType, pubkeyStr, signContent)
     \<and> DoSignOne b signType pubkeyStr signContent (GetExtraArgsJSON b args) = Inr (keyID, [rsv])
     \<and> rsvToSig (DecodeSpare c) (Serialize c) rsv
           (isEd25519Pubkey (FromHex (GetMPCPublicKey b (args_From args)))) = Inr sig'
     \<and> Verify c (FromHex (GetMPCPublicKey b (args_From args))) msgHash
           (SigningPrefix d tx @ msg0) sig' = (valid', err')
     \<and> (\<not> valid' \<or> err' \<noteq> None)
     \<longrightarrow> MPCSignTransaction b d c (RawPayment tx) args = Inl (ErrVerifySignature valid' err'))
   \<and> (SignTransactionWithRippleKey d c rawTx key keyseq = Inr (stx, h)
     \<longrightarrow> (\<exists>tx1 mh m0 sg. rawTx = RawPayment tx1 \<and> SigningHash d tx1 = Inr (mh, m0)
            \<and> Sign c (Key_Private c key keyseq) mh (SigningPrefix d tx1 @ m0) = Inr sg
            \<and> Verify c (Key_Public c key keyseq) mh (SigningPrefix d tx1 @ m0) sg
                = (True, None)))
   \<and> (\<not> SignWithPrivateKey b \<and> MPCSignTransaction b d c rawTx args = Inr (stx, h)
     \<longrightarrow> (\<exists>tx1 mh m0 signType1 pubkeyStr1 signContent1 keyID1 rsv1 sg.
             rawTx = RawPayment tx1 \<and> SigningHash d tx1 = Inr (mh, m0)
           \<and> MPCSignTransaction_request d (GetMPCPublicKey b (args_From args)) mh
                 (SigningPrefix d tx1 @ m0) = Inr (signType1, pubkeyStr1, signContent1)
           \<and> DoSignOne b signType1 pubkeyStr1 signContent1 (GetExtraArgsJSON b args)
                 = Inr (keyID1, [rsv1])
           \<and> rsvToSig (DecodeSpare c) (Serialize c) rsv1
                 (isEd25519Pubkey (FromHex (GetMPCPublicKey b (args_From args)))) = Inr sg
           \<and> Verify c (FromHex (GetMPCPublicKey b (args_From args))) mh
                 (SigningPrefix d tx1 @ m0) sg = (True, None)
           \<and> pay_TxnSignature stx = Some sg))
   \<and> (SignWithPrivateKey b \<and> MPCSignTransaction b d c rawTx args = Inr (stx, h)
     \<longrightarrow> (\<exists>D. HexToECDSA c (GetSignerPrivateKey b (ChainID b)) = Inr D
            \<and> SignTransactionWithRippleKey d c rawTx (NewECDSAKeyFromPrivKeyBytes c D) None
                = Inr (stx, h)))"
proof (intro conjI impI)
  assume "SigningHash d tx = Inr (msgHash, msg0)
     \<and> Sign c (Key_Private c key keyseq) msgHash (SigningPrefix d tx @ msg0) = Inr sig
     \<and> Verify c (Key_Public c key keyseq) msgHash (SigningPrefix d tx @ msg0) sig = (valid, err)
     \<and> (\<not> valid \<or> err \<noteq> None)"
  then show "SignTransactionWithRippleKey d c (RawPayment tx) key keyseq
           = Inl (ErrVerifySignature valid err)"
    by (elim conjE) (rule local_gate)
next
  assume "verifyTransactionWithArgs b tx args = Inr ()
     \<and> \<not> SignWithPrivateKey b
     \<and> SigningHash d tx = Inr (msgHash, msg0)
     \<and> MPCSignTransaction_request d (GetMPCPublicKey b (args_From args)) msgHash
           (SigningPrefix d tx @ msg0) = Inr (signType, pubkeyStr, signContent)
     \<and> DoSignOne b signType pubkeyStr signContent (GetExtraArgsJSON b args) = Inr (keyID, [rsv])
     \<and> rsvToSig (DecodeSpare c) (Serialize c) rsv
           (isEd25519Pubkey (FromHex (GetMPCPublicKey b (args_From args)))) = Inr sig'
     \<and> Verify c (FromHex (GetMPCPublicKey b (args_From args))) msgHash
           (SigningPrefix d tx @ msg0) sig' = (valid', err')
     \<and> (\<not> valid' \<or> err' \<noteq> None)"
  then show "MPCSignTransaction b d c (RawPayment tx) args = Inl (ErrVerifySignature valid' err')"
    by (elim conjE) (rule remote_gate)
next
  assume "SignTransactionWithRippleKey d c rawTx key keyseq = Inr (stx, h)"
  then show "\<exists>tx1 mh m0 sg. rawTx = RawPayment tx1 \<and> SigningHash d tx1 = Inr (mh, m0)
            \<and> Sign c (Key_Private c key keyseq) mh (SigningPrefix d tx1 @ m0) = Inr sg
            \<and> Verify c (Key_Public c key keyseq) mh (SigningPrefix d tx1 @ m0) sg
                = (True, None)"
    by (rule local_signed_verified)
next
  assume "\<not> SignWithPrivateKey b \<and> MPCSignTransaction b d c rawTx args = Inr (stx, h)"
  then show "\<exists>tx1 mh m0 signType1 pubkeyStr1 signContent1 keyID1 rsv1 sg.
             rawTx = RawPayment tx1 \<and> SigningHash d tx1 = Inr (mh, m0)
           \<and> MPCSignTransaction_request d (GetMPCPublicKey b (args_From args)) mh
                 (SigningPrefix d tx1 @ m0) = Inr (signType1, pubkeyStr1, signContent1)
           \<and> DoSignOne b signType1 pubkeyStr1 signContent1 (GetExtraArgsJSON b args)
                 = Inr (keyID1, [rsv1])
           \<and> rsvToSig (DecodeSpare c) (Serialize c) rsv1
                 (isEd25519Pubkey (FromHex (GetMPCPublicKey b (args_From args)))) = Inr sg
           \<and> Verify c (FromHex (GetMPCPublicKey b (args_From args))) mh
                 (SigningPrefix d tx1 @ m0) sg = (True, None)
           \<and> pay_TxnSignature stx = Some sg"
    by (elim conjE) (rule remote_signed_verified)
next
  assume "SignWithPrivateKey b \<and> MPCSignTransaction b d c rawTx args = Inr (stx, h)"
  then show "\<exists>D. HexToECDSA c (GetSignerPrivateKey b (ChainID b)) = Inr D
            \<and> SignTransactionWithRippleKey d c rawTx (NewECDSAKeyFromPrivKeyBytes c D) None
                = Inr (stx, h)"
    by (elim conjE) (rule local_key_mode)
qed

theorem verification_gate_witness:
  "Verify ex_crypto_reject (Key_Public ex_crypto_reject (Key [1, 2]) None) (replicate 32 7)
       (SigningPrefix ex_data ex_payment @ FromText ''blob'') [1, 2] = (False, None)
   \<and> SignTransactionWithRippleKey ex_data ex_crypto_reject (RawPayment ex_payment)
       (Key [1, 2]) None = Inl (ErrVerifySignature False None)
   \<and> Verify ex_crypto (FromHex ex_ecdsa_pubkey) (replicate 32 7)
       (SigningPrefix ex_data ex_payment @ FromText ''blob'') [1, 2] = (False, None)
   \<and> MPCSignTransaction ex_bridge ex_data ex_crypto (RawPayment ex_payment) ex_args
       = Inl (ErrVerifySignature False None)
   \<and> SignTransactionWithRippleKey ex_data ex_crypto (RawPayment ex_payment) (Key [1, 2]) None
       = Inr (ex_signed_payment [1, 2], sprintf_X_bytes (replicate 32 9))
   \<and> (\<exists>sg. Sign ex_crypto (Key_Private ex_crypto (Key [1, 2]) None) (replicate 32 7)
             (SigningPrefix ex_data ex_payment @ FromText ''blob'') = Inr sg
          \<and> Verify ex_crypto (Key_Public ex_crypto (Key [1, 2]) None) (replicate 32 7)
             (SigningPrefix ex_data ex_payment @ FromText ''blob'') sg = (True, None))
   \<and> MPCSignTransaction ex_bridge_good_rsv ex_data ex_crypto (RawPayment ex_payment) ex_args
       = Inr (ex_signed_payment [2, 17], sprintf_X_bytes (replicate 32 9))
   \<and> (\<exists>sg. Verify ex_crypto (FromHex (GetMPCPublicKey ex_bridge_good_rsv (args_From ex_args)))
             (replicate 32 7) (SigningPrefix ex_data ex_payment @ FromText ''blob'') sg
             = (True, None)
          \<and> pay_TxnSignature (ex_signed_payment [2, 17]) = Some sg)
   \<and> MPCSignTransaction ex_bridge_local_key ex_data ex_crypto (RawPayment ex_payment) ex_args
       = Inr (ex_signed_payment [1, 2], sprintf_X_bytes (replicate 32 9))
   \<and> (\<exists>D. SignTransactionWithRippleKey ex_data ex_crypto (RawPayment ex_payment)
             (NewECDSAKeyFromPrivKeyBytes ex_crypto D) None
             = Inr (ex_signed_payment [1, 2], sprintf_X_bytes (replicate 32 9)))"
proof -
  have pk: "GetMPCPublicKey ex_bridge (args_From ex_args) = ex_ecdsa_pubkey"
    by (simp add: ex_bridge_def ex_args_def)
  have a: "SigningHash ex_data ex_payment = Inr (replicate 32 7, FromText ''blob'')
      \<and> Sign ex_crypto_reject (Key_Private ex_crypto_reject (Key [1, 2]) None) (replicate 32 7)
           (SigningPrefix ex_data ex_payment @ FromText ''blob'') = Inr [1, 2]
      \<and> Verify ex_crypto_reject (Key_Public ex_crypto_reject (Key [1, 2]) None)
           (replicate 32 7) (SigningPrefix ex_data ex_payment @ FromText ''blob'') [1, 2]
           = (False, None)
      \<and> (\<not> False \<or> (None :: error option) \<noteq> None)"
    by (simp add: ex_data_def ex_crypto_reject_def ex_crypto_def)
  have v: "Verify ex_crypto (FromHex ex_ecdsa_pubkey) (replicate 32 7)
       (SigningPrefix ex_data ex_payment @ FromText ''blob'') [1, 2] = (False, None)"
    by (simp add: ex_crypto_def FromHex_def ex_ecdsa_pubkey_def has0xPrefix_def fromHexChar_def)
  have b: "verifyTransactionWithArgs ex_bridge ex_payment ex_args = Inr ()
      \<and> \<not> SignWithPrivateKey ex_bridge
      \<and> SigningHash ex_data ex_payment = Inr (replicate 32 7, FromText ''blob'')
      \<and> MPCSignTransaction_request ex_data (GetMPCPublicKey ex_bridge (args_From ex_args))
           (replicate 32 7) (SigningPrefix ex_data ex_payment @ FromText ''blob'')
           = Inr (SignTypeED25519, ex_ecdsa_pubkey, Hash_String ex_data (replicate 32 7))
      \<and> DoSignOne ex_bridge SignTypeED25519 ex_ecdsa_pubkey
           (Hash_String ex_data (replicate 32 7)) (GetExtraArgsJSON ex_bridge ex_args)
           = Inr (''key-1'', [ecdsa_rsv 1 2])
      \<and> rsvToSig (DecodeSpare ex_crypto) (Serialize ex_crypto) (ecdsa_rsv 1 2)
           (isEd25519Pubkey (FromHex (GetMPCPublicKey ex_bridge (args_From ex_args))))
           = Inr [1, 2]
      \<and> Verify ex_crypto (FromHex (GetMPCPublicKey ex_bridge (args_From ex_args)))
           (replicate 32 7) (SigningPrefix ex_data ex_payment @ FromText ''blob'') [1, 2]
           = (False, None)
      \<and> (\<not> False \<or> (None :: error option) \<noteq> None)"
    unfolding pk
    by (simp add: verify_ex_payment v isEd_ex_ecdsa_pubkey rsvToSig_ecdsa_decodes
        MPCSignTransaction_request_def)
       (simp add: ex_bridge_def ex_data_def ex_crypto_def ascii_EqualFold_def)
  note g3 = verification_gate [THEN conjunct2, THEN conjunct2]
  note g4 = g3 [THEN conjunct2]
  note g5 = g4 [THEN conjunct2]
  from verification_gate [THEN conjunct1, THEN mp, OF a]
  have f1: "SignTransactionWithRippleKey ex_data ex_crypto_reject (RawPayment ex_payment)
       (Key [1, 2]) None = Inl (ErrVerifySignature False None)" .
  from verification_gate [THEN conjunct2, THEN conjunct1, THEN mp, OF b]
  have f2: "MPCSignTransaction ex_bridge ex_data ex_crypto (RawPayment ex_payment) ex_args
       = Inl (ErrVerifySignature False None)" .
  from g3 [THEN conjunct1, THEN mp, OF sign_ex_payment_local]
  have f3: "\<exists>sg. Sign ex_crypto (Key_Private ex_crypto (Key [1, 2]) None) (replicate 32 7)
             (SigningPrefix ex_data ex_payment @ FromText ''blob'') = Inr sg
          \<and> Verify ex_crypto (Key_Public ex_crypto (Key [1, 2]) None) (replicate 32 7)
             (SigningPrefix ex_data ex_payment @ FromText ''blob'') sg = (True, None)"
    by (auto simp: SigningHash_ex_payment)
  have r: "\<not> SignWithPrivateKey ex_bridge_good_rsv"
    by (simp add: ex_bridge_good_rsv_def ex_bridge_def)
  from g4 [THEN conjunct1, THEN mp, OF conjI [OF r sign_ex_payment_good_rsv]]
  have f4: "\<exists>sg. Verify ex_crypto
             (FromHex (GetMPCPublicKey ex_bridge_good_rsv (args_From ex_args)))
             (replicate 32 7) (SigningPrefix ex_data ex_payment @ FromText ''blob'') sg
             = (True, None)
          \<and> pay_TxnSignature (ex_signed_payment [2, 17]) = Some sg"
    by (auto simp: SigningHash_ex_payment)
  have l: "SignWithPrivateKey ex_bridge_local_key"
    by (simp add: ex_bridge_local_key_def ex_bridge_def)
  from g5 [THEN mp, OF conjI [OF l sign_ex_payment_local_key]]
  have f5: "\<exists>D. SignTransactionWithRippleKey ex_data ex_crypto (RawPayment ex_payment)
             (NewECDSAKeyFromPrivKeyBytes ex_crypto D) None
             = Inr (ex_signed_payment [1, 2], sprintf_X_bytes (replicate 32 9))"
    by blast
  from a v f1 f2 f3 f4 f5 sign_ex_payment_local sign_ex_payment_good_rsv
    sign_ex_payment_local_key
  show ?thesis by simp
qed

text \<open>
  C8: when the oracle answers a single-key request with a number of signatures other
  than one, \<^verbatim>\<open>MPCSignTransaction\<close> returns the error that carries the number returned and
  the key ID, and so no signed transaction. The hypotheses say that the remote path
  reaches the oracle: the receiver check passes, local signing is off, the signing hash
  is computed and the request is formed.
\<close>

theorem oracle_result_count:
  assumes "verifyTransactionWithArgs b tx args = Inr ()"
    and "\<not> SignWithPrivateKey b"
    and "SigningHash d tx = Inr (msgHash, msg0)"
    and "MPCSignTransaction_request d (GetMPCPublicKey b (args_From args)) msgHash
           (SigningPrefix d tx @ msg0) = Inr (signType, pubkeyStr, signContent)"
    and "DoSignOne b signType pubkeyStr signContent (GetExtraArgsJSON b args) = Inr (keyID, rsvs)"
    and "length rsvs \<noteq> 1"
  shows "MPCSignTransaction b d c (RawPayment tx) args = Inl (ErrRsvCount (length rsvs) keyID)"
  using assms by (simp add: MPCSignTransaction_def)

theorem oracle_result_count_witness:
  "DoSignOne ex_bridge_two_rsvs SignTypeED25519 ex_ecdsa_pubkey
       (Hash_String ex_data (replicate 32 7)) (GetExtraArgsJSON ex_bridge_two_rsvs ex_args)
     = Inr (''key-1'', [ecdsa_rsv 1 2, ecdsa_rsv 3 4])
   \<and> MPCSignTransaction ex_bridge_two_rsvs ex_data ex_crypto (RawPayment ex_payment) ex_args
     = Inl (ErrRsvCount 2 ''key-1'')"
proof -
  have pk: "GetMPCPublicKey ex_bridge_two_rsvs (args_From ex_args) = ex_ecdsa_pubkey"
    by (simp add: ex_bridge_two_rsvs_def ex_bridge_def ex_args_def)
  have h1: "verifyTransactionWithArgs ex_bridge_two_rsvs ex_payment ex_args = Inr ()"
    by (simp add: verify_ex_payment ex_bridge_two_rsvs_def ex_bridge_def ascii_EqualFold_def)
  have h2: "\<not> SignWithPrivateKey ex_bridge_two_rsvs"
    by (simp add: ex_bridge_two_rsvs_def ex_bridge_def)
  have h3: "SigningHash ex_data ex_payment = Inr (replicate 32 7, FromText ''blob'')"
    by (simp add: ex_data_def)
  have h4: "MPCSignTransaction_request ex_data
        (GetMPCPublicKey ex_bridge_two_rsvs (args_From ex_args)) (replicate 32 7)
        (SigningPrefix ex_data ex_payment @ FromText ''blob'')
      = Inr (SignTypeED25519, ex_ecdsa_pubkey, Hash_String ex_data (replicate 32 7))"
    unfolding pk by (simp add: MPCSignTransaction_request_def isEd_ex_ecdsa_pubkey)
  have h5: "DoSignOne ex_bridge_two_rsvs SignTypeED25519 ex_ecdsa_pubkey
        (Hash_String ex_data (replicate 32 7)) (GetExtraArgsJSON ex_bridge_two_rsvs ex_args)
      = Inr (''key-1'', [ecdsa_rsv 1 2, ecdsa_rsv 3 4])"
    by (simp add: ex_bridge_two_rsvs_def ex_bridge_def)
  have h6: "length [ecdsa_rsv 1 2, ecdsa_rsv 3 4] \<noteq> 1" by simp
  from oracle_result_count [OF h1 h2 h3 h4 h5 h6, where c = ex_crypto] h5
  show ?thesis by simp
qed

text \<open>
  C3: what \<^verbatim>\<open>MPCSignTransaction\<close> sends to the oracle. For a public key of 33 bytes that
  begins with \<^verbatim>\<open>0xED\<close> the content is the hexadecimal text of the prefixed message and the
  first two characters of the key text are dropped, as the claim says, but the algorithm
  tag is \<^verbatim>\<open>SignTypeEC256K1\<close>; for any other key the content is the text of the signing hash
  and the tag is \<^verbatim>\<open>SignTypeED25519\<close>. The two tags are exchanged against the claim.
\<close>

theorem mpc_request_tags_exchanged:
  "(isEd25519Pubkey (FromHex pubkeyStr) \<longrightarrow>
      MPCSignTransaction_request d pubkeyStr msgHash msg
        = Inr (SignTypeEC256K1, drop 2 pubkeyStr, ToHex d msg))
   \<and> (\<not> isEd25519Pubkey (FromHex pubkeyStr) \<longrightarrow>
      MPCSignTransaction_request d pubkeyStr msgHash msg
        = Inr (SignTypeED25519, pubkeyStr, Hash_String d msgHash))"
proof (intro conjI impI)
  assume ed: "isEd25519Pubkey (FromHex pubkeyStr)"
  have "2 \<le> length pubkeyStr"
  proof (rule ccontr)
    assume "\<not> 2 \<le> length pubkeyStr"
    then have "pubkeyStr = [] \<or> (\<exists>c. pubkeyStr = [c])"
      by (cases pubkeyStr; cases "tl pubkeyStr") auto
    then have "length (FromHex pubkeyStr) \<le> 1"
      by (auto simp: FromHex_def has0xPrefix_def split: option.splits)
    with ed show False by (simp add: isEd25519Pubkey_def)
  qed
  with ed show "MPCSignTransaction_request d pubkeyStr msgHash msg
        = Inr (SignTypeEC256K1, drop 2 pubkeyStr, ToHex d msg)"
    by (simp add: MPCSignTransaction_request_def)
next
  assume "\<not> isEd25519Pubkey (FromHex pubkeyStr)"
  then show "MPCSignTransaction_request d pubkeyStr msgHash msg
        = Inr (SignTypeED25519, pubkeyStr, Hash_String d msgHash)"
    by (simp add: MPCSignTransaction_request_def)
qed

theorem mpc_request_tags_exchanged_witness:
  "isEd25519Pubkey (FromHex ex_ed_pubkey)
   \<and> MPCSignTransaction_request ex_data ex_ed_pubkey (replicate 32 7) [1, 2]
       = Inr (SignTypeEC256K1, drop 2 ex_ed_pubkey, ''0x0102'')
   \<and> \<not> isEd25519Pubkey (FromHex ex_ecdsa_pubkey)
   \<and> MPCSignTransaction_request ex_data ex_ecdsa_pubkey (replicate 32 7) [1, 2]
       = Inr (SignTypeED25519, ex_ecdsa_pubkey, sprintf_X_bytes (replicate 32 7))
   \<and> MPCSignTransaction ex_bridge_echo ex_data ex_crypto (RawPayment ex_payment) ex_args
       = Inl (ErrExternal ''called with EC256K1'')"
proof -
  note ed = isEd_ex_ed_pubkey and ec = isEd_ex_ecdsa_pubkey
  from mpc_request_tags_exchanged [of ex_ed_pubkey ex_data "replicate 32 7" "[1, 2]"] ed
  have r1: "MPCSignTransaction_request ex_data ex_ed_pubkey (replicate 32 7) [1, 2]
       = Inr (SignTypeEC256K1, drop 2 ex_ed_pubkey, ''0x0102'')"
    by (simp add: ex_data_def hextable_def)
  from mpc_request_tags_exchanged [of ex_ecdsa_pubkey ex_data "replicate 32 7" "[1, 2]"] ec
  have r2: "MPCSignTransaction_request ex_data ex_ecdsa_pubkey (replicate 32 7) [1, 2]
       = Inr (SignTypeED25519, ex_ecdsa_pubkey, sprintf_X_bytes (replicate 32 7))"
    by (simp add: ex_data_def)
  have pk: "GetMPCPublicKey ex_bridge_echo (args_From ex_args) = ex_ed_pubkey"
    by (simp add: ex_bridge_echo_def ex_bridge_def ex_args_def)
  have h1: "verifyTransactionWithArgs ex_bridge_echo ex_payment ex_args = Inr ()"
    by (simp add: verify_ex_payment ex_bridge_echo_def ex_bridge_def ascii_EqualFold_def)
  have h2: "\<not> SignWithPrivateKey ex_bridge_echo"
    by (simp add: ex_bridge_echo_def ex_bridge_def)
  have h3: "SigningHash ex_data ex_payment = Inr (replicate 32 7, FromText ''blob'')"
    by (simp add: ex_data_def)
  from mpc_request_tags_exchanged
    [of ex_ed_pubkey ex_data "replicate 32 7" "SigningPrefix ex_data ex_payment @ FromText ''blob''"]
    ed
  have h4: "MPCSignTransaction_request ex_data ex_ed_pubkey (replicate 32 7)
        (SigningPrefix ex_data ex_payment @ FromText ''blob'')
      = Inr (SignTypeEC256K1, drop 2 ex_ed_pubkey,
             ToHex ex_data (SigningPrefix ex_data ex_payment @ FromText ''blob''))"
    by simp
  have h5: "DoSignOne ex_bridge_echo SignTypeEC256K1 k s m = Inl (ErrExternal ''called with EC256K1'')"
    for k s m
    by (simp add: ex_bridge_echo_def ex_bridge_def)
  have r3: "MPCSignTransaction ex_bridge_echo ex_data ex_crypto (RawPayment ex_payment) ex_args
       = Inl (ErrExternal ''called with EC256K1'')"
    by (simp add: MPCSignTransaction_def h1 h2 h3 pk h4 h5)
  from ed ec r1 r2 r3 show ?thesis by simp
qed

section \<open>The build pipeline\<close>

lemma big_Int64_exact: "big_IsInt64 a \<Longrightarrow> sint (big_Int64 a) = a"
  unfolding big_IsInt64_def big_Int64_def
  by (simp add: sint_sbintrunc' signed_take_bit_int_eq_self)

lemma resolve_ex_args:
  "BuildRawTransaction_resolve ex_bridge ex_data ex_args
     = (Inr (ex_native_inputs ex_receiver 15000000), ex_args\<lparr>args_Extra := Some ex_extra\<rparr>)"
  by (simp add: ex_defs build_defs)

lemma resolve_ex_args_new_receiver:
  "BuildRawTransaction_resolve ex_bridge ex_data ex_args_new_receiver
     = (Inr (ex_native_inputs ''rNewAccount'' 1000000),
        ex_args_new_receiver\<lparr>args_Extra := Some ex_extra\<rparr>)"
  by (simp add: ex_defs ex_args_new_receiver_def build_defs)

lemma resolve_ex_issued_args:
  "BuildRawTransaction_resolve ex_bridge ex_data ex_issued_args
     = (Inr (ex_issued_inputs ex_receiver 1000), ex_issued_args\<lparr>args_Extra := Some ex_extra\<rparr>)"
  by (simp add: ex_defs ex_issued_args_def ex_issued_inputs_def build_defs)

lemma resolve_ex_issued_args_new_receiver:
  "BuildRawTransaction_resolve ex_bridge ex_data (ex_issued_args\<lparr>args_Bind := ''rNewAccount''\<rparr>)
     = (Inr (ex_issued_inputs ''rNewAccount'' 1000),
        ex_issued_args\<lparr>args_Bind := ''rNewAccount'', args_Extra := Some ex_extra\<rparr>)"
  by (simp add: ex_defs ex_issued_args_def ex_issued_inputs_def build_defs)

lemma resolve_ex_args_bad_fee:
  "BuildRawTransaction_resolve ex_bridge ex_data ex_args_bad_fee
     = (Inr ((ex_native_inputs ex_receiver 1000000)\<lparr>bi_sequence := 3, bi_fee := ''abc''\<rparr>),
        ex_args_bad_fee)"
  by (simp add: ex_defs ex_args_bad_fee_def build_defs)

text \<open>
  What the first part of \<^verbatim>\<open>BuildRawTransaction\<close> hands on: the receiver is the request's
  bind address, the public key the sender's, and the payment amount is
  \<^verbatim>\<open>getPaymentAmount\<close> of the swap value and the destination token.
\<close>

lemma resolve_inputs:
  assumes "BuildRawTransaction_resolve b d args = (Inr i, args')"
  shows "bi_receiver i = args_Bind args
       \<and> bi_mpcPubkey i = GetMPCPublicKey b (args_From args)
       \<and> getPaymentAmount d (bi_amount i) (bi_token i) = Inr (bi_amt i)"
  using assms
  by (auto simp: BuildRawTransaction_resolve_def getReceiverAndAmount_def Let_def
      split: if_splits sum.splits option.splits prod.splits)

text \<open>A build that succeeds has passed the checks of the request and of the balances.\<close>

lemma build_success_passed_balances:
  assumes "fst (BuildRawTransaction b d c args) = Inr r"
  shows "\<exists>i args'. BuildRawTransaction_resolve b d args = (Inr i, args')
           \<and> BuildRawTransaction_balances b d (args_From args) i = Inr ()"
  using assms
  by (auto simp: BuildRawTransaction_def split: prod.splits sum.splits)

text \<open>
  C4: for a native-asset send that reaches the balance checks, the build fails with the
  sender's insufficient-balance error whenever the sender's balance less the amount and
  the minimum reserve fee is below the account reserve of 10,000,000, and with the
  receiver's error whenever the sender's check passes and the receiver's balance plus
  the amount is below the reserve; without a configured fee the minimum reserve fee is
  100,000. The balance counts as zero when its fetch fails and gives none. The witness
  is the scenario of the claim: balance 20,000,000, amount 15,000,000, default fee.
\<close>

theorem native_reserve_rule:
  assumes "BuildRawTransaction_resolve b d args = (Inr i, args')"
    and "RippleExtra_IsNative d (tc_RippleExtra (bi_token i))"
    and "GetBalance b (args_From args) = (sb0, e1)"
    and "(if e1 \<noteq> None \<and> sb0 = None then Some 0 else sb0) = Some senderBalance"
  shows "(senderBalance - bi_amount i - getMinReserveFee b < 10000000
          \<longrightarrow> fst (BuildRawTransaction b d c args)
                = Inl (ErrInsufficientNativeSender (args_From args)))
       \<and> (\<not> senderBalance - bi_amount i - getMinReserveFee b < 10000000
          \<and> GetBalance b (bi_receiver i) = (rb0, e2)
          \<and> (if e2 \<noteq> None \<and> rb0 = None then Some 0 else rb0) = Some receiverBalance
          \<and> receiverBalance + bi_amount i < 10000000
          \<longrightarrow> fst (BuildRawTransaction b d c args)
                = Inl (ErrInsufficientNativeReceiver (bi_receiver i)))
       \<and> (HasRouterConfig b \<and> GetMinReserveFee b (ChainID b) = None
          \<longrightarrow> getMinReserveFee b = 100000)"
  using assms
  by (auto simp: BuildRawTransaction_def BuildRawTransaction_balances_def checkNativeBalance_def
      accountReserve_def getMinReserveFee_def Let_def)

theorem native_reserve_rule_witness:
  "GetBalance ex_bridge (args_From ex_args) = (Some 20000000, None)
   \<and> bi_amount (ex_native_inputs ex_receiver 15000000) = 15000000
   \<and> getMinReserveFee ex_bridge = 100000
   \<and> (20000000 :: int) - 15000000 - 100000 < 10000000
   \<and> fst (BuildRawTransaction ex_bridge ex_data ex_crypto ex_args)
       = Inl (ErrInsufficientNativeSender ex_sender)
   \<and> GetBalance ex_bridge ''rNewAccount'' = (None, Some (ErrExternal ''actNotFound''))
   \<and> fst (BuildRawTransaction ex_bridge ex_data ex_crypto ex_args_new_receiver)
       = Inl (ErrInsufficientNativeReceiver ''rNewAccount'')"
proof -
  have n: "RippleExtra_IsNative ex_data (tc_RippleExtra (bi_token (ex_native_inputs r a)))" for r a
    by (simp add: ex_defs)
  have sb: "GetBalance ex_bridge (args_From ex_args) = (Some 20000000, None)"
    by (simp add: ex_defs)
  have sb': "GetBalance ex_bridge (args_From ex_args_new_receiver) = (Some 20000000, None)"
    by (simp add: ex_defs ex_args_new_receiver_def)
  have eff: "(if (None :: error option) \<noteq> None \<and> Some (20000000 :: int) = None then Some 0
              else Some 20000000) = Some 20000000"
    by simp
  have rb: "GetBalance ex_bridge ''rNewAccount'' = (None, Some (ErrExternal ''actNotFound''))"
    by (simp add: ex_defs)
  have fee: "getMinReserveFee ex_bridge = 100000"
    using native_reserve_rule [OF resolve_ex_args n sb eff] by (simp add: ex_defs)
  have s: "fst (BuildRawTransaction ex_bridge ex_data ex_crypto ex_args)
       = Inl (ErrInsufficientNativeSender ex_sender)"
    using native_reserve_rule [OF resolve_ex_args n sb eff, where c = ex_crypto] fee
    by (simp add: ex_native_inputs_def ex_args_def)
  have r: "fst (BuildRawTransaction ex_bridge ex_data ex_crypto ex_args_new_receiver)
       = Inl (ErrInsufficientNativeReceiver ''rNewAccount'')"
    using native_reserve_rule [OF resolve_ex_args_new_receiver n sb' eff,
        where c = ex_crypto and ?rb0.0 = None and ?e2.0 = "Some (ErrExternal ''actNotFound'')"
          and receiverBalance = 0] fee rb
    by (simp add: ex_native_inputs_def)
  from sb fee s rb r show ?thesis by (simp add: ex_native_inputs_def)
qed

text \<open>
  C7: for an issued-asset send that reaches the balance checks, the build fails with the
  receiver's insufficient-native-balance error whenever the destination's native
  balance is below 10,000,000, whatever the issued amount; and when that check passes
  and the sender's trust-line balance for the currency and issuer compares below the
  amount, it fails with the insufficient issued-balance error.
\<close>

theorem issued_asset_rule:
  assumes "BuildRawTransaction_resolve b d args = (Inr i, args')"
    and "\<not> RippleExtra_IsNative d (tc_RippleExtra (bi_token i))"
    and "GetBalance b (bi_receiver i) = (rb0, e)"
    and "(if e \<noteq> None \<and> rb0 = None then Some 0 else rb0) = Some receiverBalance"
  shows "(receiverBalance < 10000000
          \<longrightarrow> fst (BuildRawTransaction b d c args)
                = Inl (ErrInsufficientNativeReceiver (bi_receiver i)))
       \<and> (\<not> receiverBalance < 10000000
          \<and> GetAccountLine b (rx_Currency (tc_RippleExtra (bi_token i)))
               (rx_Issuer (tc_RippleExtra (bi_token i))) (args_From args) = Inr line
          \<and> Value_Compare d line (am_Value (bi_amt i)) < 0
          \<longrightarrow> fst (BuildRawTransaction b d c args)
                = Inl (ErrInsufficientIssued (rx_Currency (tc_RippleExtra (bi_token i)))
                        (rx_Issuer (tc_RippleExtra (bi_token i))) (args_From args)))"
  using assms
  by (auto simp: BuildRawTransaction_def BuildRawTransaction_balances_def checkNativeBalance_def
      checkNonNativeBalance_def accountReserve_def Let_def)

theorem issued_asset_rule_witness:
  "GetBalance ex_bridge ''rNewAccount'' = (None, Some (ErrExternal ''actNotFound''))
   \<and> fst (BuildRawTransaction ex_bridge ex_data ex_crypto
            (ex_issued_args\<lparr>args_Bind := ''rNewAccount''\<rparr>))
       = Inl (ErrInsufficientNativeReceiver ''rNewAccount'')
   \<and> GetBalance ex_bridge ex_receiver = (Some 50000000, None)
   \<and> GetAccountLine ex_bridge ''USD'' ''rIssuer'' ex_sender
       = Inr \<lparr>val_native = False, val_num = 500, val_offset = - 6\<rparr>
   \<and> fst (BuildRawTransaction ex_bridge ex_data ex_crypto ex_issued_args)
       = Inl (ErrInsufficientIssued ''USD'' ''rIssuer'' ex_sender)"
proof -
  have n: "\<not> RippleExtra_IsNative ex_data (tc_RippleExtra (bi_token (ex_issued_inputs r a)))"
    for r a
    by (simp add: ex_defs ex_issued_inputs_def ex_issued_args_def)
  have rb: "GetBalance ex_bridge (bi_receiver (ex_issued_inputs ''rNewAccount'' 1000))
              = (None, Some (ErrExternal ''actNotFound''))"
    by (simp add: ex_defs ex_issued_inputs_def ex_issued_args_def)
  have eff: "(if Some (ErrExternal ''actNotFound'') \<noteq> None \<and> (None :: int option) = None
              then Some 0 else None) = Some 0"
    by simp
  have rb': "GetBalance ex_bridge (bi_receiver (ex_issued_inputs ex_receiver 1000))
              = (Some 50000000, None)"
    by (simp add: ex_defs ex_issued_inputs_def ex_issued_args_def)
  have eff': "(if (None :: error option) \<noteq> None \<and> Some (50000000 :: int) = None then Some 0
               else Some 50000000) = Some 50000000"
    by simp
  have line: "GetAccountLine ex_bridge ''USD'' ''rIssuer'' ex_sender
       = Inr \<lparr>val_native = False, val_num = 500, val_offset = - 6\<rparr>"
    by (simp add: ex_defs ex_issued_inputs_def ex_issued_args_def)
  have r: "fst (BuildRawTransaction ex_bridge ex_data ex_crypto
            (ex_issued_args\<lparr>args_Bind := ''rNewAccount''\<rparr>))
       = Inl (ErrInsufficientNativeReceiver ''rNewAccount'')"
    using issued_asset_rule [OF resolve_ex_issued_args_new_receiver n rb eff,
        where c = ex_crypto]
    by (simp add: ex_issued_inputs_def)
  have s: "fst (BuildRawTransaction ex_bridge ex_data ex_crypto ex_issued_args)
       = Inl (ErrInsufficientIssued ''USD'' ''rIssuer'' ex_sender)"
    using issued_asset_rule [OF resolve_ex_issued_args n rb' eff', where c = ex_crypto
          and line = "\<lparr>val_native = False, val_num = 500, val_offset = - 6\<rparr>"] line
    by (simp add: ex_defs ex_issued_inputs_def ex_issued_args_def)
  from rb rb' line r s show ?thesis by (simp add: ex_issued_inputs_def)
qed

text \<open>
  C6, as stated, fails: the claim has \<^verbatim>\<open>getPaymentAmount\<close> reject, with the overflow error,
  every amount that is no non-negative 64-bit integer. The code tests \<^verbatim>\<open>IsInt64\<close> only:
  the amount \<open>-1\<close> is outside the claimed range and is converted, not rejected. And the
  currency code is looked up first: for a code the library does not know, the amount
  \<open>2^63\<close> fails with the error of the currency, not with the overflow error.
\<close>

theorem negative_amount_not_rejected:
  "\<not> (0 \<le> (- 1 :: int) \<and> (- 1 :: int) < 2 ^ 63)
   \<and> getPaymentAmount ex_data (- 1) ex_native_token
       = Inr \<lparr>am_Value = ex_native_value (- 1), am_Currency = ''XRP'', am_Issuer = []\<rparr>
   \<and> \<not> (0 \<le> (2 ^ 63 :: int) \<and> (2 ^ 63 :: int) < 2 ^ 63)
   \<and> getPaymentAmount ex_data (2 ^ 63) ex_unknown_token = Inl (ErrNonExistCurrency ''EUR'')"
  by (simp add: ex_defs build_defs ex_unknown_token_def)

text \<open>
  C6, amended: \<^verbatim>\<open>getPaymentAmount\<close> accepts only amounts representable as a signed 64-bit
  integer. Once the token's currency code is known, every amount outside
  \<open>[-2^63, 2^63)\<close> fails with the overflow error that carries the amount; whenever an
  amount is accepted it is in that range and the 64-bit value handed to the ledger
  library reads back as the amount itself, neither clamped, wrapped nor truncated; and
  every amount inside the range, the negative ones too, passes this check: the result is
  what the ledger library makes of that exact value (for a native currency,
  \<^verbatim>\<open>data.NewAmount\<close> of it).
\<close>

theorem payment_amount_int64_guard:
  "(currencyMap d (rx_Currency (tc_RippleExtra token)) \<noteq> None
      \<and> \<not> (- (2 ^ 63) \<le> amount \<and> amount < 2 ^ 63)
      \<longrightarrow> getPaymentAmount d amount token = Inl (ErrAmountOverflow amount))
   \<and> (getPaymentAmount d amount token = Inr amt
      \<longrightarrow> - (2 ^ 63) \<le> amount \<and> amount < 2 ^ 63 \<and> sint (big_Int64 amount) = amount
          \<and> (NewAmount d (big_Int64 amount) = Inr amt
             \<or> (\<exists>v. NewNonNativeValue d (big_Int64 amount) (- ucast (tc_Decimals token)) = Inr v
                    \<and> am_Value amt = v)))
   \<and> (currencyMap d (rx_Currency (tc_RippleExtra token)) = Some currency
      \<and> - (2 ^ 63) \<le> amount \<and> amount < 2 ^ 63
      \<longrightarrow> sint (big_Int64 amount) = amount
          \<and> getPaymentAmount d amount token
              = (if Currency_IsNative d currency then NewAmount d (big_Int64 amount)
                 else (case issuerMap d (rx_Issuer (tc_RippleExtra token)) of
                         None \<Rightarrow> Inl (ErrNonExistIssuer (rx_Issuer (tc_RippleExtra token)))
                       | Some issuer \<Rightarrow>
                          (case NewNonNativeValue d (big_Int64 amount)
                                  (- ucast (tc_Decimals token)) of
                             Inl e \<Rightarrow> Inl e
                           | Inr v \<Rightarrow>
                               Inr \<lparr>am_Value = v, am_Currency = currency,
                                     am_Issuer = issuer\<rparr>))))"
proof (intro conjI impI)
  assume "currencyMap d (rx_Currency (tc_RippleExtra token)) \<noteq> None
      \<and> \<not> (- (2 ^ 63) \<le> amount \<and> amount < 2 ^ 63)"
  then show "getPaymentAmount d amount token = Inl (ErrAmountOverflow amount)"
    by (auto simp: getPaymentAmount_def big_IsInt64_def)
next
  assume ok: "getPaymentAmount d amount token = Inr amt"
  then have r: "big_IsInt64 amount"
    by (auto simp: getPaymentAmount_def split: option.splits if_splits)
  then show "- (2 ^ 63) \<le> amount" "amount < 2 ^ 63" by (simp_all add: big_IsInt64_def)
  from r show "sint (big_Int64 amount) = amount" by (rule big_Int64_exact)
  from ok show "NewAmount d (big_Int64 amount) = Inr amt
             \<or> (\<exists>v. NewNonNativeValue d (big_Int64 amount) (- ucast (tc_Decimals token)) = Inr v
                    \<and> am_Value amt = v)"
    by (auto simp: getPaymentAmount_def split: option.splits if_splits sum.splits)
next
  assume in_range: "currencyMap d (rx_Currency (tc_RippleExtra token)) = Some currency
      \<and> - (2 ^ 63) \<le> amount \<and> amount < 2 ^ 63"
  then have r: "big_IsInt64 amount" by (simp add: big_IsInt64_def)
  then show "sint (big_Int64 amount) = amount" by (rule big_Int64_exact)
  from in_range r show "getPaymentAmount d amount token
              = (if Currency_IsNative d currency then NewAmount d (big_Int64 amount)
                 else (case issuerMap d (rx_Issuer (tc_RippleExtra token)) of
                         None \<Rightarrow> Inl (ErrNonExistIssuer (rx_Issuer (tc_RippleExtra token)))
                       | Some issuer \<Rightarrow>
                          (case NewNonNativeValue d (big_Int64 amount)
                                  (- ucast (tc_Decimals token)) of
                             Inl e \<Rightarrow> Inl e
                           | Inr v \<Rightarrow>
                               Inr \<lparr>am_Value = v, am_Currency = currency,
                                     am_Issuer = issuer\<rparr>)))"
    by (simp add: getPaymentAmount_def)
qed

theorem payment_amount_int64_guard_witness:
  "currencyMap ex_data (rx_Currency (tc_RippleExtra ex_native_token)) = Some ''XRP''
   \<and> \<not> (- (2 ^ 63) \<le> (2 ^ 63 :: int) \<and> (2 ^ 63 :: int) < 2 ^ 63)
   \<and> getPaymentAmount ex_data (2 ^ 63) ex_native_token = Inl (ErrAmountOverflow (2 ^ 63))
   \<and> getPaymentAmount ex_data 15000000 ex_native_token
       = Inr \<lparr>am_Value = ex_native_value 15000000, am_Currency = ''XRP'', am_Issuer = []\<rparr>
   \<and> sint (big_Int64 15000000) = 15000000
   \<and> - (2 ^ 63) \<le> (- 1 :: int) \<and> (- 1 :: int) < 2 ^ 63
   \<and> sint (big_Int64 (- 1)) = - 1
   \<and> getPaymentAmount ex_data (- 1) ex_native_token = NewAmount ex_data (big_Int64 (- 1))
   \<and> NewAmount ex_data (big_Int64 (- 1))
       = Inr \<lparr>am_Value = ex_native_value (- 1), am_Currency = ''XRP'', am_Issuer = []\<rparr>"
proof -
  have c: "currencyMap ex_data (rx_Currency (tc_RippleExtra ex_native_token)) = Some ''XRP''"
    by (simp add: ex_defs)
  have n: "Currency_IsNative ex_data ''XRP''"
    by (simp add: ex_defs)
  have ok: "getPaymentAmount ex_data 15000000 ex_native_token
       = Inr \<lparr>am_Value = ex_native_value 15000000, am_Currency = ''XRP'', am_Issuer = []\<rparr>"
    by (simp add: ex_defs build_defs)
  have na: "NewAmount ex_data (big_Int64 (- 1))
       = Inr \<lparr>am_Value = ex_native_value (- 1), am_Currency = ''XRP'', am_Issuer = []\<rparr>"
    by (simp add: ex_defs big_Int64_def)
  from payment_amount_int64_guard [of ex_data ex_native_token "2 ^ 63"] c
  have o: "getPaymentAmount ex_data (2 ^ 63) ex_native_token = Inl (ErrAmountOverflow (2 ^ 63))"
    by simp
  from payment_amount_int64_guard [of ex_data ex_native_token 15000000] ok
  have e: "sint (big_Int64 15000000) = 15000000"
    by simp
  from payment_amount_int64_guard [of ex_data ex_native_token "- 1" _ "''XRP''"] c n
  have m: "sint (big_Int64 (- 1)) = - 1
      \<and> getPaymentAmount ex_data (- 1) ex_native_token = NewAmount ex_data (big_Int64 (- 1))"
    by simp
  from c ok o e m na show ?thesis by simp
qed

text \<open>
  C2: a fee text that does not parse, and a signing hash that fails, make
  \<^verbatim>\<open>NewUnsignedPaymentTransaction\<close> return a nil transaction; \<^verbatim>\<open>BuildRawTransaction\<close>
  returns it with the nil error of the last balance check. Against the claim, the result
  is success with a nil transaction. The theorem is the case of the fee, for every build
  that passes the balance checks; the second example of the witness is the failed hash.
\<close>

theorem bad_fee_builds_nil_without_error:
  assumes "BuildRawTransaction_resolve b d args = (Inr i, args')"
    and "BuildRawTransaction_balances b d (args_From args) i = Inr ()"
    and "parseAccount d (bi_receiver i) = Some destination"
    and "parseAmount d (Amount_String d (bi_amt i)) = Some amount"
    and "NewValue d (bi_fee i) True = Inl err"
  shows "BuildRawTransaction b d c args = (Inr None, args')"
  using assms
  by (simp add: BuildRawTransaction_def NewUnsignedPaymentTransaction_def Let_def)

theorem bad_fee_builds_nil_without_error_witness:
  "NewValue ex_data ''abc'' True = Inl (ErrExternal ''Invalid Number'')
   \<and> BuildRawTransaction ex_bridge ex_data ex_crypto ex_args_bad_fee = (Inr None, ex_args_bad_fee)
   \<and> fst (BuildRawTransaction ex_bridge ex_data_no_hash ex_crypto
            (ex_args\<lparr>args_OriginValue := 1000000\<rparr>)) = Inr None"
proof -
  let ?i = "(ex_native_inputs ex_receiver 1000000)\<lparr>bi_sequence := 3, bi_fee := ''abc''\<rparr>"
  have h2: "BuildRawTransaction_balances ex_bridge ex_data (args_From ex_args_bad_fee) ?i = Inr ()"
    by (simp add: ex_defs ex_args_bad_fee_def build_defs)
  have h3: "parseAccount ex_data (bi_receiver ?i) = Some ex_receiver"
    by (simp add: ex_defs)
  have h4: "parseAmount ex_data (Amount_String ex_data (bi_amt ?i))
      = Some \<lparr>am_Value = ex_native_value 1000000, am_Currency = ''XRP'', am_Issuer = []\<rparr>"
    by (simp add: ex_defs utoa10.simps)
  have h5: "NewValue ex_data (bi_fee ?i) True = Inl (ErrExternal ''Invalid Number'')"
    by (simp add: ex_defs)
  have hash: "fst (BuildRawTransaction ex_bridge ex_data_no_hash ex_crypto
            (ex_args\<lparr>args_OriginValue := 1000000\<rparr>)) = Inr None"
    by (simp add: ex_defs ex_data_no_hash_def build_defs)
  from bad_fee_builds_nil_without_error [OF resolve_ex_args_bad_fee h2 h3 h4 h5,
      where c = ex_crypto]
    h5 hash
  show ?thesis by (simp add: ex_native_inputs_def)
qed

text \<open>
  C5: when the sender's account cannot be fetched, \<^verbatim>\<open>GetSeq\<close> returns the error and a nil
  sequence; \<^verbatim>\<open>swapoutDefaultArgs\<close> logs the error and dereferences the nil sequence.
  Against the claim, a build without \<^verbatim>\<open>args.Extra\<close> does not go on with sequence zero:
  it panics.
\<close>

theorem failed_sequence_fetch_panics:
  assumes "GetTokenConfig b multichainToken = Some token"
    and "GetAccount b (args_From args) = Inl err"
  shows "GetSeq b args = Inl (ErrCannotGetAccount err)
       \<and> swapoutDefaultArgs b d args multichainToken = Inl PanicNilDereference"
  using assms by (simp add: swapoutDefaultArgs_def GetSeq_def GetPoolNonce_def)

theorem failed_sequence_fetch_panics_witness:
  "GetAccount ex_bridge_no_account (args_From ex_args) = Inl (ErrExternal ''actNotFound'')
   \<and> GetSeq ex_bridge_no_account ex_args = Inl (ErrCannotGetAccount (ErrExternal ''actNotFound''))
   \<and> swapoutDefaultArgs ex_bridge_no_account ex_data ex_args ''XRP'' = Inl PanicNilDereference
   \<and> BuildRawTransaction ex_bridge_no_account ex_data ex_crypto
        (ex_args\<lparr>args_OriginValue := 1000000\<rparr>)
       = (Inl PanicNilDereference, ex_args\<lparr>args_OriginValue := 1000000\<rparr>)"
proof -
  have t: "GetTokenConfig ex_bridge_no_account ''XRP'' = Some ex_native_token"
    by (simp add: ex_defs ex_bridge_no_account_def)
  have a: "GetAccount ex_bridge_no_account (args_From ex_args) = Inl (ErrExternal ''actNotFound'')"
    by (simp add: ex_defs ex_bridge_no_account_def)
  have b: "BuildRawTransaction ex_bridge_no_account ex_data ex_crypto
        (ex_args\<lparr>args_OriginValue := 1000000\<rparr>)
       = (Inl PanicNilDereference, ex_args\<lparr>args_OriginValue := 1000000\<rparr>)"
    by (simp add: ex_defs ex_bridge_no_account_def build_defs)
  from failed_sequence_fetch_panics [OF t a, where d = ex_data] a b show ?thesis by simp
qed


end
